theory Spec2Isabelle
  imports Complex_Main "HOL-Library.Char_ord" "HOL-Library.List_Lexorder" "HOL-Library.Multiset"
begin

section \<open>The training driver \<^verbatim>\<open>train_x_formers.py\<close>\<close>

text \<open>
  The driver is one Python script: module-level statements that fix the configuration,
  validate the dataset name and resolve the run directory, and the function
  \<^verbatim>\<open>train_model\<close> with the epoch loop. The model follows the script statement by
  statement.

  Conventions of the embedding:
  \<^item> Python's unbounded integers are \<^typ>\<open>int\<close>; \<^verbatim>\<open>%\<close> is HOL's \<open>mod\<close> on
    \<^typ>\<open>int\<close> (both take the sign of the divisor), with the \<^verbatim>\<open>ZeroDivisionError\<close>
    of a zero divisor written out.
  \<^item> Python's floats (the running loss, the averages) are idealised as \<^typ>\<open>real\<close>:
    rounding is not modelled. The correct-count is a \<^typ>\<open>nat\<close>.
  \<^item> Strings are \<^typ>\<open>string\<close>, compared as Python compares them (by character code,
    a proper prefix first).
  \<^item> An exception is a value: a call returns \<open>Inl (e, w)\<close>, the exception together with
    the world (files and output) as it was when the exception was raised, or \<open>Inr\<close> of
    its result.
  \<^item> The tensor library, the model architectures, the dataset reader and the metrics
    writer are not part of the script. Their operations are parameters of the model (the
    record \<open>runtime\<close>); their effects on the outside are recorded as events.
  \<^item> \<^verbatim>\<open>print\<close> calls, timing and device placement are left out.
\<close>

subsection \<open>Python exceptions and strings\<close>

datatype pyerr =
    NotImplementedError
  | ValueError
  | ZeroDivisionError
  | FileNotFoundError
  | AttributeError
  | EmptyDatasetError

text \<open>
  The first five are the exceptions that the modelled statements can raise. The last one is
  named by the specification only: no statement of the script raises it.
\<close>

definition is_digit :: "char \<Rightarrow> bool" where
  "is_digit c = (CHR ''0'' \<le> c \<and> c \<le> CHR ''9'')"

definition digit_val :: "char \<Rightarrow> int" where
  "digit_val c = int (of_char c) - 48"

definition digit_char :: "nat \<Rightarrow> char" where
  "digit_char d = char_of (48 + d)"

text \<open>\<^verbatim>\<open>str(n)\<close> for an integer: decimal digits, a minus sign for a negative number.\<close>

function str_nat :: "nat \<Rightarrow> string" where
  "str_nat n = (if n < 10 then [digit_char n] else str_nat (n div 10) @ [digit_char (n mod 10)])"
  by pat_completeness auto
termination
  by (relation "measure id") auto

declare str_nat.simps [simp del]

definition py_str :: "int \<Rightarrow> string" where
  "py_str i = (if i < 0 then CHR ''-'' # str_nat (nat (- i)) else str_nat (nat i))"

text \<open>
  \<^verbatim>\<open>int(s)\<close> for a string, base ten: surrounding whitespace is stripped, one sign is
  allowed, then at least one digit and nothing else; anything else raises
  \<^verbatim>\<open>ValueError\<close>. (Python also accepts single underscores between digits; the script
  only passes text that contains no underscore, see \<open>run_id\<close>.)
\<close>

definition is_space :: "char \<Rightarrow> bool" where
  "is_space c = (c \<in> set [CHR '' '', CHR 0x09, CHR 0x0A, CHR 0x0B, CHR 0x0C, CHR 0x0D])"

definition py_strip :: "string \<Rightarrow> string" where
  "py_strip s = rev (dropWhile is_space (rev (dropWhile is_space s)))"

definition digits_val :: "string \<Rightarrow> int" where
  "digits_val ds = foldl (\<lambda>a c. 10 * a + digit_val c) 0 ds"

definition py_int_unsigned :: "string \<Rightarrow> pyerr + int" where
  "py_int_unsigned ds =
     (if ds \<noteq> [] \<and> list_all is_digit ds then Inr (digits_val ds) else Inl ValueError)"

definition py_int :: "string \<Rightarrow> pyerr + int" where
  "py_int s =
     (case py_strip s of
        [] \<Rightarrow> Inl ValueError
      | c # cs \<Rightarrow>
          if c = CHR ''-'' then map_sum id uminus (py_int_unsigned cs)
          else if c = CHR ''+'' then py_int_unsigned cs
          else py_int_unsigned (c # cs))"

text \<open>\<^verbatim>\<open>s.split(sep)\<close> for a one-character separator: never an empty list.\<close>

fun split_on :: "char \<Rightarrow> string \<Rightarrow> string list" where
  "split_on sep [] = [[]]"
| "split_on sep (c # cs) =
     (if c = sep then [] # split_on sep cs
      else (case split_on sep cs of
              [] \<Rightarrow> [[c]]
            | p # ps \<Rightarrow> (c # p) # ps))"

text \<open>
  \<^verbatim>\<open>os.path.join\<close> of two components on a POSIX system: an absolute second component
  replaces the first; otherwise one separator stands between them.
\<close>

definition path_join :: "string \<Rightarrow> string \<Rightarrow> string" where
  "path_join a b =
     (if b \<noteq> [] \<and> hd b = CHR ''/'' then b
      else if a = [] \<or> last a = CHR ''/'' then a @ b
      else a @ ''/'' @ b)"

subsection \<open>Module level: configuration, dataset check, run directory\<close>

text \<open>
  The module-level constants. The script fixes them in its text; the claims range over
  them, so they are the fields of a record, and \<open>shipped\<close> is the script's own choice.
  \<^verbatim>\<open>batch_size\<close> is only handed to the data loaders, which are given here by their
  batches, and \<^verbatim>\<open>lr\<close> only to the optimizer's constructor.
\<close>

record globals =
  nEpochs :: int
  resume_epoch :: int
  useTest :: bool
  nTestInterval :: int
  snapshot :: int
  lr :: real
  dataset :: string
  modelName :: string

definition shipped :: globals where
  "shipped = \<lparr> nEpochs = 20, resume_epoch = 0, useTest = True, nTestInterval = 20,
               snapshot = 50, lr = 1 / 1000, dataset = ''ucf101'',
               modelName = ''simple_vit_3d'' \<rparr>"

text \<open>Lines 31 to 37: the number of classes, or \<^verbatim>\<open>NotImplementedError\<close>.\<close>

definition num_classes :: "string \<Rightarrow> pyerr + int" where
  "num_classes ds =
     (if ds = ''hmdb51'' then Inr 51
      else if ds = ''ucf101'' then Inr 101
      else Inl NotImplementedError)"

text \<open>
  Lines 42 to 47. \<open>base\<close> is \<^verbatim>\<open>save_dir_root\<close>, the directory of the script, and
  \<open>entries\<close> the names found in \<^verbatim>\<open><base>/run\<close> (none when that directory does not
  exist), in any order. \<^verbatim>\<open>glob\<close> with the pattern \<^verbatim>\<open>run_*\<close> keeps every name that
  starts with \<^verbatim>\<open>run_\<close>, file or directory, and returns it with its path.
  \<^verbatim>\<open>sorted\<close> orders the paths as strings.

  \<^verbatim>\<open>glob\<close> reads the whole path as a pattern. \<open>glob_runs\<close> is what it returns
  when the directory part is plain text, that is when \<open>base\<close> holds none of the
  characters \<^verbatim>\<open>*\<close>, \<^verbatim>\<open>?\<close>, \<^verbatim>\<open>[\<close> that \<^verbatim>\<open>glob.has_magic\<close> looks for. With
  such a character in \<open>base\<close> the directory part is itself matched against the file
  system, which is not modelled: every statement about \<open>glob_runs\<close> and \<open>run_id\<close>
  carries the hypothesis \<open>\<not> has_magic base\<close>.
\<close>

definition has_magic :: "string \<Rightarrow> bool" where
  "has_magic s = (CHR ''*'' \<in> set s \<or> CHR ''?'' \<in> set s \<or> CHR ''['' \<in> set s)"

definition glob_runs :: "string \<Rightarrow> string list \<Rightarrow> string list" where
  "glob_runs base entries =
     map (path_join (path_join base ''run''))
       (filter (\<lambda>n. take 4 n = ''run_'') entries)"

definition run_id :: "int \<Rightarrow> string \<Rightarrow> string list \<Rightarrow> pyerr + int" where
  "run_id resume base entries =
     (if resume \<noteq> 0 then
        (let runs = sort (glob_runs base entries)
         in if runs \<noteq> [] then py_int (last (split_on CHR ''_'' (last runs))) else Inr 0)
      else
        (let runs = sort (glob_runs base entries)
         in if runs \<noteq> [] then map_sum id (\<lambda>k. k + 1) (py_int (last (split_on CHR ''_'' (last runs))))
            else Inr 0))"

definition save_dir :: "string \<Rightarrow> int \<Rightarrow> string" where
  "save_dir base rid = path_join (path_join base ''run'') (''run_'' @ py_str rid)"

definition saveName :: "globals \<Rightarrow> string" where
  "saveName g = modelName g @ ''-'' @ dataset g"

subsection \<open>The outside world and the tensor runtime\<close>

text \<open>
  A checkpoint file holds the dictionary that line 238 builds. The world is the
  checkpoint files by path and the sequence of calls made to the outside: constructors of
  the tensor library and of the data pipeline, \<^verbatim>\<open>torch.load\<close>, \<^verbatim>\<open>torch.save\<close> and
  the scalars handed to the metrics writer.
\<close>

record ('p, 'o) checkpoint =
  ck_epoch :: int
  state_dict :: 'p
  opt_dict :: 'o

datatype arch = CCT | SimpleViT | ViT3D | ViViT

datatype ('p, 'o) event =
    NewModel arch int
  | NewCriterion
  | NewOptimizer real
  | NewScheduler
  | TorchLoad string
  | NewWriter
  | NewLoader string
  | AddScalar string real int
  | TorchSave string "('p, 'o) checkpoint"
  | WriterClose

record ('p, 'o) world =
  files :: "string \<Rightarrow> ('p, 'o) checkpoint option"
  out :: "('p, 'o) event list"

type_synonym ('a, 'p, 'o) res = "(pyerr \<times> ('p, 'o) world) + 'a"

definition and_then :: "('a, 'p, 'o) res \<Rightarrow> ('a \<Rightarrow> ('b, 'p, 'o) res) \<Rightarrow> ('b, 'p, 'o) res" where
  "and_then r f = (case r of Inl e \<Rightarrow> Inl e | Inr a \<Rightarrow> f a)"

text \<open>
  The operations of the tensor library that the script calls, on abstract types: \<open>'x\<close> one
  input clip, \<open>'y\<close> the output tensor of a batch, \<open>'p\<close> the model's state dictionary, \<open>'g\<close>
  the accumulated gradients, \<open>'o\<close> the optimizer's state dictionary. Labels are class
  indices. \<open>forward\<close> is \<^verbatim>\<open>model(inputs)\<close> in the given mode (\<open>True\<close> for training mode);
  \<open>softmax\<close> is \<^verbatim>\<open>nn.Softmax(dim=1)\<close>; \<open>argmax\<close> is \<^verbatim>\<open>torch.max(probs, 1)[1]\<close>;
  \<open>criterion\<close> is the cross-entropy loss read with \<^verbatim>\<open>loss.item()\<close>; \<open>backward\<close> is
  \<^verbatim>\<open>loss.backward()\<close>; \<open>opt_step\<close> is \<^verbatim>\<open>optimizer.step()\<close>; \<open>lr_step\<close> is what the
  \<open>n\<close>-th \<^verbatim>\<open>scheduler.step()\<close> does to the optimizer.
\<close>

record ('x, 'y, 'p, 'g, 'o) runtime =
  new_model :: "arch \<Rightarrow> int \<Rightarrow> 'p"
  no_grads :: 'g
  new_optimizer :: "'p \<Rightarrow> real \<Rightarrow> 'o"
  forward :: "'p \<Rightarrow> bool \<Rightarrow> 'x list \<Rightarrow> 'y"
  softmax :: "'y \<Rightarrow> 'y"
  argmax :: "'y \<Rightarrow> nat list"
  criterion :: "'y \<Rightarrow> nat list \<Rightarrow> real"
  zero_grad :: "'g \<Rightarrow> 'g"
  backward :: "'p \<Rightarrow> bool \<Rightarrow> 'g \<Rightarrow> 'x list \<Rightarrow> nat list \<Rightarrow> 'g"
  opt_step :: "'p \<Rightarrow> 'g \<Rightarrow> 'o \<Rightarrow> 'p \<times> 'o"
  lr_step :: "nat \<Rightarrow> 'o \<Rightarrow> 'o"

text \<open>
  The data pipeline (\<^verbatim>\<open>VideoDataset\<close> behind a \<^verbatim>\<open>DataLoader\<close>), by what the script
  sees of it: for a split name, the batches (inputs, labels) that iterating the loader
  yields during a given epoch, and \<^verbatim>\<open>len(loader.dataset)\<close>.
\<close>

type_synonym 'x batch = "'x list \<times> nat list"

record 'x sources =
  batches :: "string \<Rightarrow> int \<Rightarrow> 'x batch list"
  dataset_len :: "string \<Rightarrow> nat"

subsection \<open>The state of \<^verbatim>\<open>train_model\<close>\<close>

text \<open>
  \<^verbatim>\<open>running_corrects\<close> starts as the Python float \<^verbatim>\<open>0.0\<close> and becomes a tensor with the
  first \<^verbatim>\<open>+= torch.sum(...)\<close>; only a tensor has the method \<^verbatim>\<open>double\<close>.
\<close>

datatype counter = PyFloat | Tensor nat

fun add_count :: "counter \<Rightarrow> nat \<Rightarrow> counter" where
  "add_count PyFloat c = Tensor c"
| "add_count (Tensor n) c = Tensor (n + c)"

record ('p, 'g, 'o) tstate =
  params :: 'p
  grads :: 'g
  opt :: 'o
  sched :: nat
  training :: bool
  running_loss :: real
  running_corrects :: counter
  world :: "('p, 'o) world"

definition emit :: "('p, 'o) event \<Rightarrow> ('p, 'g, 'o) tstate \<Rightarrow> ('p, 'g, 'o) tstate" where
  "emit e st = st\<lparr>world := (world st)\<lparr>out := out (world st) @ [e]\<rparr>\<rparr>"

definition torch_save ::
  "string \<Rightarrow> ('p, 'o) checkpoint \<Rightarrow> ('p, 'g, 'o) tstate \<Rightarrow> ('p, 'g, 'o) tstate" where
  "torch_save path ck st =
     st\<lparr>world := (world st)\<lparr>files := (files (world st))(path \<mapsto> ck),
                              out := out (world st) @ [TorchSave path ck]\<rparr>\<rparr>"

text \<open>\<^verbatim>\<open>torch.sum(preds == labels.data)\<close>, one prediction per label.\<close>

definition count_eq :: "nat list \<Rightarrow> nat list \<Rightarrow> nat" where
  "count_eq preds labels = length (filter (\<lambda>(p, l). p = l) (zip preds labels))"

subsection \<open>The train and validation phases (lines 184 to 235)\<close>

text \<open>The loop over the batches of the phase, lines 200 to 221.\<close>

fun batch_loop ::
  "('x, 'y, 'p, 'g, 'o) runtime \<Rightarrow> string \<Rightarrow> 'x batch list \<Rightarrow> ('p, 'g, 'o) tstate
     \<Rightarrow> ('p, 'g, 'o) tstate" where
  "batch_loop rt phase [] st = st"
| "batch_loop rt phase ((inputs, labels) # rest) st =
     (let st1 = st\<lparr>grads := zero_grad rt (grads st)\<rparr>;
          outputs = forward rt (params st1) (training st1) inputs;
          probs = softmax rt outputs;
          preds = argmax rt probs;
          loss = criterion rt outputs labels;
          st2 = (if phase = ''train'' then
                   (let g = backward rt (params st1) (training st1) (grads st1) inputs labels;
                        (p1, o1) = opt_step rt (params st1) g (opt st1)
                    in st1\<lparr>params := p1, grads := g, opt := o1\<rparr>)
                 else st1);
          st3 = st2\<lparr>running_loss := running_loss st2 + loss * real (length inputs),
                    running_corrects := add_count (running_corrects st2) (count_eq preds labels)\<rparr>
      in batch_loop rt phase rest st3)"

text \<open>
  One pass of the body of \<^verbatim>\<open>for phase in ['train', 'val']\<close>. The division of line 223
  raises \<^verbatim>\<open>ZeroDivisionError\<close> for a dataset of length zero; line 224 raises
  \<^verbatim>\<open>AttributeError\<close> when no batch was seen.
\<close>

definition run_phase ::
  "('x, 'y, 'p, 'g, 'o) runtime \<Rightarrow> 'x sources \<Rightarrow> string \<Rightarrow> int \<Rightarrow> ('p, 'g, 'o) tstate
     \<Rightarrow> (('p, 'g, 'o) tstate, 'p, 'o) res" where
  "run_phase rt src phase epoch st =
     (let st0 = st\<lparr>running_loss := 0, running_corrects := PyFloat\<rparr>;
          st1 = (if phase = ''train'' then
                   st0\<lparr>sched := sched st0 + 1,
                       opt := lr_step rt (sched st0 + 1) (opt st0),
                       training := True\<rparr>
                 else st0\<lparr>training := False\<rparr>);
          st2 = batch_loop rt phase (batches src phase epoch) st1
      in if dataset_len src phase = 0 then Inl (ZeroDivisionError, world st2)
         else
           (case running_corrects st2 of
              PyFloat \<Rightarrow> Inl (AttributeError, world st2)
            | Tensor c \<Rightarrow>
                (let epoch_loss = running_loss st2 / real (dataset_len src phase);
                     epoch_acc = real c / real (dataset_len src phase)
                 in if phase = ''train'' then
                      Inr (emit (AddScalar ''data/train_acc_epoch'' epoch_acc epoch)
                            (emit (AddScalar ''data/train_loss_epoch'' epoch_loss epoch) st2))
                    else
                      Inr (emit (AddScalar ''data/val_acc_epoch'' epoch_acc epoch)
                            (emit (AddScalar ''data/val_loss_epoch'' epoch_loss epoch) st2)))))"

subsection \<open>Checkpoint and test decisions (lines 237 to 273)\<close>

definition checkpoint_path :: "string \<Rightarrow> globals \<Rightarrow> int \<Rightarrow> string" where
  "checkpoint_path sdir g epoch =
     path_join (path_join sdir ''models'') (saveName g @ ''_epoch-'' @ py_str epoch @ ''.pth.tar'')"

definition save_step ::
  "string \<Rightarrow> globals \<Rightarrow> int \<Rightarrow> int \<Rightarrow> ('p, 'g, 'o) tstate \<Rightarrow> (('p, 'g, 'o) tstate, 'p, 'o) res" where
  "save_step sdir g save_epoch epoch st =
     (if save_epoch = 0 then Inl (ZeroDivisionError, world st)
      else if epoch mod save_epoch = save_epoch - 1 then
        Inr (torch_save (checkpoint_path sdir g epoch)
               \<lparr>ck_epoch = epoch + 1, state_dict = params st, opt_dict = opt st\<rparr> st)
      else Inr st)"

text \<open>The loop over the test batches, lines 252 to 263: no \<^verbatim>\<open>zero_grad\<close> here.\<close>

fun test_loop ::
  "('x, 'y, 'p, 'g, 'o) runtime \<Rightarrow> 'x batch list \<Rightarrow> ('p, 'g, 'o) tstate \<Rightarrow> ('p, 'g, 'o) tstate" where
  "test_loop rt [] st = st"
| "test_loop rt ((inputs, labels) # rest) st =
     (let outputs = forward rt (params st) (training st) inputs;
          probs = softmax rt outputs;
          preds = argmax rt probs;
          loss = criterion rt outputs labels;
          st1 = st\<lparr>running_loss := running_loss st + loss * real (length inputs),
                   running_corrects := add_count (running_corrects st) (count_eq preds labels)\<rparr>
      in test_loop rt rest st1)"

definition test_phase ::
  "('x, 'y, 'p, 'g, 'o) runtime \<Rightarrow> 'x sources \<Rightarrow> int \<Rightarrow> ('p, 'g, 'o) tstate
     \<Rightarrow> (('p, 'g, 'o) tstate, 'p, 'o) res" where
  "test_phase rt src epoch st =
     (let st0 = st\<lparr>training := False\<rparr>;
          st1 = st0\<lparr>running_loss := 0, running_corrects := PyFloat\<rparr>;
          st2 = test_loop rt (batches src ''test'' epoch) st1
      in if dataset_len src ''test'' = 0 then Inl (ZeroDivisionError, world st2)
         else
           (case running_corrects st2 of
              PyFloat \<Rightarrow> Inl (AttributeError, world st2)
            | Tensor c \<Rightarrow>
                (let epoch_loss = running_loss st2 / real (dataset_len src ''test'');
                     epoch_acc = real c / real (dataset_len src ''test'')
                 in Inr (emit (AddScalar ''data/test_acc_epoch'' epoch_acc epoch)
                          (emit (AddScalar ''data/test_loss_epoch'' epoch_loss epoch) st2)))))"

definition test_step ::
  "('x, 'y, 'p, 'g, 'o) runtime \<Rightarrow> 'x sources \<Rightarrow> bool \<Rightarrow> int \<Rightarrow> int \<Rightarrow> ('p, 'g, 'o) tstate
     \<Rightarrow> (('p, 'g, 'o) tstate, 'p, 'o) res" where
  "test_step rt src use_test test_interval epoch st =
     (if \<not> use_test then Inr st
      else if test_interval = 0 then Inl (ZeroDivisionError, world st)
      else if epoch mod test_interval = test_interval - 1 then test_phase rt src epoch st
      else Inr st)"

subsection \<open>The function \<^verbatim>\<open>train_model\<close>\<close>

text \<open>The arguments of \<^verbatim>\<open>train_model\<close>; the script's call passes the defaults.\<close>

record targs =
  arg_dataset :: string
  arg_save_dir :: string
  arg_num_classes :: int
  arg_lr :: real
  num_epochs :: int
  save_epoch :: int
  arg_useTest :: bool
  test_interval :: int

text \<open>Lines 61 to 144: the constructor chosen by the global \<^verbatim>\<open>modelName\<close>.\<close>

definition select_arch :: "string \<Rightarrow> pyerr + arch" where
  "select_arch name =
     (if name = ''cct_3d'' then Inr CCT
      else if name = ''simple_vit_3d'' then Inr SimpleViT
      else if name = ''vit_3d'' then Inr ViT3D
      else if name = ''vivit'' then Inr ViViT
      else Inl NotImplementedError)"

text \<open>
  Lines 61 to 180: model, criterion, optimizer, scheduler, the optional restore, the
  writer and the three loaders. A new module is in training mode. The running
  accumulators are not bound yet; the fields hold placeholders that every phase
  overwrites before reading.
\<close>

definition prepare ::
  "('x, 'y, 'p, 'g, 'o) runtime \<Rightarrow> globals \<Rightarrow> targs \<Rightarrow> ('p, 'o) world
     \<Rightarrow> (('p, 'g, 'o) tstate, 'p, 'o) res" where
  "prepare rt g a w =
     (case select_arch (modelName g) of
        Inl e \<Rightarrow> Inl (e, w)
      | Inr ar \<Rightarrow>
          (let model = new_model rt ar (arg_num_classes a);
               st = \<lparr>params = model, grads = no_grads rt,
                     opt = new_optimizer rt model (arg_lr a), sched = 0, training = True,
                     running_loss = 0, running_corrects = PyFloat,
                     world = w\<lparr>out := out w @ [NewModel ar (arg_num_classes a), NewCriterion,
                                                 NewOptimizer (arg_lr a), NewScheduler]\<rparr>\<rparr>;
               loaded =
                 (if resume_epoch g = 0 then Inr st
                  else
                    (let path = checkpoint_path (arg_save_dir a) g (resume_epoch g - 1);
                         st1 = emit (TorchLoad path) st
                     in case files w path of
                          None \<Rightarrow> Inl (FileNotFoundError, world st1)
                        | Some ck \<Rightarrow> Inr (st1\<lparr>params := state_dict ck, opt := opt_dict ck\<rparr>)))
           in and_then loaded
                (\<lambda>st2. Inr (emit (NewLoader ''test'') (emit (NewLoader ''val'')
                         (emit (NewLoader ''train'') (emit NewWriter st2)))))))"

text \<open>One epoch, lines 183 to 273: train, validate, checkpoint decision, test decision.\<close>

definition epoch_body ::
  "('x, 'y, 'p, 'g, 'o) runtime \<Rightarrow> 'x sources \<Rightarrow> globals \<Rightarrow> targs \<Rightarrow> int
     \<Rightarrow> ('p, 'g, 'o) tstate \<Rightarrow> (('p, 'g, 'o) tstate, 'p, 'o) res" where
  "epoch_body rt src g a epoch st =
     and_then (run_phase rt src ''train'' epoch st) (\<lambda>st1.
     and_then (run_phase rt src ''val'' epoch st1) (\<lambda>st2.
     and_then (save_step (arg_save_dir a) g (save_epoch a) epoch st2) (\<lambda>st3.
     test_step rt src (arg_useTest a) (test_interval a) epoch st3)))"

text \<open>\<^verbatim>\<open>for epoch in range(resume_epoch, num_epochs)\<close>, from \<open>epoch\<close> on.\<close>

function epoch_loop ::
  "('x, 'y, 'p, 'g, 'o) runtime \<Rightarrow> 'x sources \<Rightarrow> globals \<Rightarrow> targs \<Rightarrow> int
     \<Rightarrow> ('p, 'g, 'o) tstate \<Rightarrow> (('p, 'g, 'o) tstate, 'p, 'o) res" where
  "epoch_loop rt src g a epoch st =
     (if epoch < num_epochs a then
        (case epoch_body rt src g a epoch st of
           Inl e \<Rightarrow> Inl e
         | Inr st1 \<Rightarrow> epoch_loop rt src g a (epoch + 1) st1)
      else Inr st)"
  by pat_completeness auto
termination
  by (relation "measure (\<lambda>(rt, src, g, a, epoch, st). nat (num_epochs a - epoch))") auto

declare epoch_loop.simps [simp del]

definition train_model ::
  "('x, 'y, 'p, 'g, 'o) runtime \<Rightarrow> 'x sources \<Rightarrow> globals \<Rightarrow> targs \<Rightarrow> ('p, 'o) world
     \<Rightarrow> (('p, 'g, 'o) tstate, 'p, 'o) res" where
  "train_model rt src g a w =
     and_then (prepare rt g a w) (\<lambda>st.
     and_then (epoch_loop rt src g a (resume_epoch g) st) (\<lambda>st1.
     Inr (emit WriterClose st1)))"

text \<open>
  The whole script: the dataset check, the run directory, then \<^verbatim>\<open>train_model()\<close> with
  its default arguments.
\<close>

definition default_args :: "globals \<Rightarrow> string \<Rightarrow> int \<Rightarrow> int \<Rightarrow> targs" where
  "default_args g base nc rid =
     \<lparr>arg_dataset = dataset g, arg_save_dir = save_dir base rid, arg_num_classes = nc,
      arg_lr = lr g, num_epochs = nEpochs g, save_epoch = snapshot g,
      arg_useTest = useTest g, test_interval = nTestInterval g\<rparr>"

definition main ::
  "('x, 'y, 'p, 'g, 'o) runtime \<Rightarrow> 'x sources \<Rightarrow> globals \<Rightarrow> string \<Rightarrow> string list
     \<Rightarrow> ('p, 'o) world \<Rightarrow> (('p, 'g, 'o) tstate, 'p, 'o) res" where
  "main rt src g base entries w =
     (case num_classes (dataset g) of
        Inl e \<Rightarrow> Inl (e, w)
      | Inr nc \<Rightarrow>
          (case run_id (resume_epoch g) base entries of
             Inl e \<Rightarrow> Inl (e, w)
           | Inr rid \<Rightarrow> train_model rt src g (default_args g base nc rid) w))"

subsection \<open>What a pass computes, in closed form\<close>

text \<open>
  The loss and the number of correct predictions of one batch under given parameters,
  and the parameters in force at each batch of a pass: a validation pass keeps the
  parameters it starts with, a training pass moves on with every optimizer step.
\<close>

definition batch_loss ::
  "('x, 'y, 'p, 'g, 'o) runtime \<Rightarrow> bool \<Rightarrow> 'p \<times> 'x batch \<Rightarrow> real" where
  "batch_loss rt tr pb = criterion rt (forward rt (fst pb) tr (fst (snd pb))) (snd (snd pb))"

definition batch_correct ::
  "('x, 'y, 'p, 'g, 'o) runtime \<Rightarrow> bool \<Rightarrow> 'p \<times> 'x batch \<Rightarrow> nat" where
  "batch_correct rt tr pb =
     count_eq (argmax rt (softmax rt (forward rt (fst pb) tr (fst (snd pb))))) (snd (snd pb))"

definition batch_size :: "'p \<times> 'x batch \<Rightarrow> nat" where
  "batch_size pb = length (fst (snd pb))"

fun pass_steps ::
  "('x, 'y, 'p, 'g, 'o) runtime \<Rightarrow> string \<Rightarrow> bool \<Rightarrow> 'p \<Rightarrow> 'g \<Rightarrow> 'o \<Rightarrow> 'x batch list
     \<Rightarrow> ('p \<times> 'x batch) list" where
  "pass_steps rt phase tr p g s [] = []"
| "pass_steps rt phase tr p g s (b # rest) =
     (p, b) #
     (if phase = ''train'' then
        (let g1 = backward rt p tr (zero_grad rt g) (fst b) (snd b);
             ps = opt_step rt p g1 s
         in pass_steps rt phase tr (fst ps) g1 (snd ps) rest)
      else pass_steps rt phase tr p (zero_grad rt g) s rest)"

definition weighted_loss ::
  "('x, 'y, 'p, 'g, 'o) runtime \<Rightarrow> bool \<Rightarrow> ('p \<times> 'x batch) list \<Rightarrow> real" where
  "weighted_loss rt tr steps = sum_list (map (\<lambda>pb. batch_loss rt tr pb * real (batch_size pb)) steps)"

definition total_correct ::
  "('x, 'y, 'p, 'g, 'o) runtime \<Rightarrow> bool \<Rightarrow> ('p \<times> 'x batch) list \<Rightarrow> nat" where
  "total_correct rt tr steps = sum_list (map (batch_correct rt tr) steps)"

fun count_of :: "counter \<Rightarrow> nat" where
  "count_of PyFloat = 0"
| "count_of (Tensor n) = n"

text \<open>The tags of lines 227 to 231, and the optimizer state a phase starts its batches with.\<close>

definition loss_tag :: "string \<Rightarrow> string" where
  "loss_tag phase = (if phase = ''train'' then ''data/train_loss_epoch'' else ''data/val_loss_epoch'')"

definition acc_tag :: "string \<Rightarrow> string" where
  "acc_tag phase = (if phase = ''train'' then ''data/train_acc_epoch'' else ''data/val_acc_epoch'')"

definition phase_opt :: "('x, 'y, 'p, 'g, 'o) runtime \<Rightarrow> string \<Rightarrow> ('p, 'g, 'o) tstate \<Rightarrow> 'o" where
  "phase_opt rt phase st = (if phase = ''train'' then lr_step rt (sched st + 1) (opt st) else opt st)"

definition phase_steps ::
  "('x, 'y, 'p, 'g, 'o) runtime \<Rightarrow> 'x sources \<Rightarrow> string \<Rightarrow> int \<Rightarrow> ('p, 'g, 'o) tstate
     \<Rightarrow> ('p \<times> 'x batch) list" where
  "phase_steps rt src phase epoch st =
     pass_steps rt phase (phase = ''train'') (params st) (grads st) (phase_opt rt phase st)
       (batches src phase epoch)"

subsection \<open>Reading the output\<close>

definition is_scalar :: "string \<Rightarrow> ('p, 'o) event \<Rightarrow> bool" where
  "is_scalar tag e = (case e of AddScalar t v s \<Rightarrow> t = tag | _ \<Rightarrow> False)"

definition step_of :: "('p, 'o) event \<Rightarrow> int" where
  "step_of e = (case e of AddScalar t v s \<Rightarrow> s | _ \<Rightarrow> 0)"

text \<open>The steps at which a scalar with the given tag was written, in order.\<close>

definition scalar_steps :: "string \<Rightarrow> ('p, 'o) event list \<Rightarrow> int list" where
  "scalar_steps tag es = map step_of (filter (is_scalar tag) es)"

definition is_test_scalar :: "('p, 'o) event \<Rightarrow> bool" where
  "is_test_scalar e = (is_scalar ''data/test_loss_epoch'' e \<or> is_scalar ''data/test_acc_epoch'' e)"

definition is_save :: "('p, 'o) event \<Rightarrow> bool" where
  "is_save e = (case e of TorchSave path ck \<Rightarrow> True | _ \<Rightarrow> False)"

definition is_load :: "('p, 'o) event \<Rightarrow> bool" where
  "is_load e = (case e of TorchLoad path \<Rightarrow> True | _ \<Rightarrow> False)"

text \<open>Of a checkpoint write, the path and the epoch field of the file.\<close>

definition save_key :: "('p, 'o) event \<Rightarrow> string \<times> int" where
  "save_key e = (case e of TorchSave path ck \<Rightarrow> (path, ck_epoch ck) | _ \<Rightarrow> ([], 0))"

definition save_due :: "targs \<Rightarrow> int \<Rightarrow> bool" where
  "save_due a epoch = (epoch mod save_epoch a = save_epoch a - 1)"

definition test_due :: "targs \<Rightarrow> int \<Rightarrow> bool" where
  "test_due a epoch = (arg_useTest a \<and> epoch mod test_interval a = test_interval a - 1)"

text \<open>
  The conditions under which an epoch runs to its end: the train and validation sources
  are not empty, the save interval is not zero, and when the test evaluation is enabled
  its interval is not zero and the test source is not empty where it is due.
\<close>

definition nonempty_split :: "'x sources \<Rightarrow> string \<Rightarrow> int \<Rightarrow> bool" where
  "nonempty_split src split epoch = (dataset_len src split \<noteq> 0 \<and> batches src split epoch \<noteq> [])"

definition epoch_ok :: "'x sources \<Rightarrow> targs \<Rightarrow> int \<Rightarrow> bool" where
  "epoch_ok src a epoch =
     (nonempty_split src ''train'' epoch \<and> nonempty_split src ''val'' epoch \<and>
      save_epoch a \<noteq> 0 \<and>
      (\<not> arg_useTest a \<or>
       (test_interval a \<noteq> 0 \<and> (\<not> test_due a epoch \<or> nonempty_split src ''test'' epoch))))"

text \<open>
  The conditions under which a run returns: the model name is known, the checkpoint to
  resume from exists, and every epoch of the range can run to its end.
\<close>

definition run_ok ::
  "'x sources \<Rightarrow> globals \<Rightarrow> targs \<Rightarrow> ('p, 'o) world \<Rightarrow> bool" where
  "run_ok src g a w =
     (select_arch (modelName g) \<noteq> Inl NotImplementedError \<and>
      (resume_epoch g = 0 \<or>
       files w (path_join (path_join (arg_save_dir a) ''models'')
                  (modelName g @ ''-'' @ dataset g @ ''_epoch-'' @
                   py_str (resume_epoch g - 1) @ ''.pth.tar'')) \<noteq> None) \<and>
      (\<forall>E. resume_epoch g \<le> E \<and> E < num_epochs a \<longrightarrow> epoch_ok src a E))"

text \<open>Everything an epoch that runs to its end appends to the output, in order.\<close>

definition epoch_events ::
  "('x, 'y, 'p, 'g, 'o) runtime \<Rightarrow> 'x sources \<Rightarrow> globals \<Rightarrow> targs \<Rightarrow> int
     \<Rightarrow> ('p, 'g, 'o) tstate \<Rightarrow> ('p, 'g, 'o) tstate \<Rightarrow> ('p, 'o) event list" where
  "epoch_events rt src g a epoch st st1 =
     [AddScalar ''data/train_loss_epoch''
        (weighted_loss rt True (phase_steps rt src ''train'' epoch st)
           / real (dataset_len src ''train'')) epoch,
      AddScalar ''data/train_acc_epoch''
        (real (total_correct rt True (phase_steps rt src ''train'' epoch st))
           / real (dataset_len src ''train'')) epoch,
      AddScalar ''data/val_loss_epoch''
        (weighted_loss rt False (map (Pair (params st1)) (batches src ''val'' epoch))
           / real (dataset_len src ''val'')) epoch,
      AddScalar ''data/val_acc_epoch''
        (real (total_correct rt False (map (Pair (params st1)) (batches src ''val'' epoch)))
           / real (dataset_len src ''val'')) epoch] @
     (if save_due a epoch
      then [TorchSave (checkpoint_path (arg_save_dir a) g epoch)
              \<lparr>ck_epoch = epoch + 1, state_dict = params st1, opt_dict = opt st1\<rparr>]
      else []) @
     (if test_due a epoch
      then [AddScalar ''data/test_loss_epoch''
              (weighted_loss rt False (map (Pair (params st1)) (batches src ''test'' epoch))
                 / real (dataset_len src ''test'')) epoch,
            AddScalar ''data/test_acc_epoch''
              (real (total_correct rt False (map (Pair (params st1)) (batches src ''test'' epoch)))
                 / real (dataset_len src ''test'')) epoch]
      else [])"

subsection \<open>The resolver and the empty pass as the specification words them\<close>

text \<open>
  The specification's resolver: of the entries named \<^verbatim>\<open>run_<integer>\<close>, sorted as
  strings, the integer of the last one; that integer when resuming, one more when
  starting fresh, and 0 when there is no such entry.
\<close>

definition is_run_integer :: "string \<Rightarrow> bool" where
  "is_run_integer n = (take 4 n = ''run_'' \<and> drop 4 n \<noteq> [] \<and> list_all is_digit (drop 4 n))"

definition spec_run_id :: "bool \<Rightarrow> string list \<Rightarrow> int" where
  "spec_run_id resuming entries =
     (let runs = sort (filter is_run_integer entries)
      in if runs = [] then 0
         else if resuming then digits_val (drop 4 (last runs))
         else digits_val (drop 4 (last runs)) + 1)"

text \<open>
  The specification's two outcomes of a pass over an empty source: the pass ends and the
  two scalars it wrote last are both 0, or it raises \<open>EmptyDatasetError\<close>.
\<close>

definition spec_empty_pass :: "(('p, 'g, 'o) tstate, 'p, 'o) res \<Rightarrow> bool" where
  "spec_empty_pass r =
     (case r of
        Inl ew \<Rightarrow> fst ew = EmptyDatasetError
      | Inr st \<Rightarrow>
          (case rev (out (world st)) of
             [] \<Rightarrow> False
           | e1 # es \<Rightarrow>
               (case es of
                  [] \<Rightarrow> False
                | e2 # es2 \<Rightarrow>
                    (case e1 of
                       AddScalar t1 v1 s1 \<Rightarrow>
                         (case e2 of AddScalar t2 v2 s2 \<Rightarrow> v1 = 0 \<and> v2 = 0 | _ \<Rightarrow> False)
                     | _ \<Rightarrow> False))))"

text \<open>
  The claim's checkpoint of an epoch, with the current epoch in its epoch field, and the
  file found under a path after a step.
\<close>

definition spec_checkpoint :: "int \<Rightarrow> ('p, 'g, 'o) tstate \<Rightarrow> ('p, 'o) checkpoint" where
  "spec_checkpoint epoch st = \<lparr>ck_epoch = epoch, state_dict = params st, opt_dict = opt st\<rparr>"

definition saved_file ::
  "(('p, 'g, 'o) tstate, 'p, 'o) res \<Rightarrow> string \<Rightarrow> ('p, 'o) checkpoint option" where
  "saved_file r path = (case r of Inl e \<Rightarrow> None | Inr st \<Rightarrow> files (world st) path)"

definition final_state ::
  "(('p, 'g, 'o) tstate, 'p, 'o) res \<Rightarrow> ('p, 'g, 'o) tstate option" where
  "final_state r = (case r of Inl e \<Rightarrow> None | Inr st \<Rightarrow> Some st)"

subsection \<open>A small runtime to run the model on\<close>

text \<open>
  Inputs are numbers, the model's state is a number, the output of a batch is the list
  of predicted classes, and the loss of a batch is half its number of wrong predictions.
\<close>

definition example_rt :: "(nat, nat list, nat, nat, nat) runtime" where
  "example_rt =
     \<lparr>new_model = (\<lambda>ar nc. 0), no_grads = 0, new_optimizer = (\<lambda>p l. 0),
      forward = (\<lambda>p tr xs. map (\<lambda>x. (x + p) mod 2) xs),
      softmax = (\<lambda>y. y), argmax = (\<lambda>y. y),
      criterion = (\<lambda>y ls. real (length (filter (\<lambda>(u, v). u \<noteq> v) (zip y ls))) / 2),
      zero_grad = (\<lambda>g. 0), backward = (\<lambda>p tr g xs ls. g + 1),
      opt_step = (\<lambda>p g s. (p + g, s + 1)), lr_step = (\<lambda>n s. s)\<rparr>"

definition example_src :: "nat sources" where
  "example_src =
     \<lparr>batches = (\<lambda>split epoch.
        if split = ''train'' then [([0, 1], [0, 1]), ([2], [1])]
        else if split = ''val'' then [([1, 1], [0, 1])]
        else [([4, 5], [0, 0]), ([7], [1])]),
      dataset_len = (\<lambda>split. if split = ''val'' then 2 else 3)\<rparr>"

definition empty_src :: "nat sources" where
  "empty_src = \<lparr>batches = (\<lambda>split epoch. []), dataset_len = (\<lambda>split. 0)\<rparr>"

definition example_world :: "(nat, nat) world" where
  "example_world = \<lparr>files = Map.empty, out = []\<rparr>"

definition example_state :: "(nat, nat, nat) tstate" where
  "example_state =
     \<lparr>params = 0, grads = 0, opt = 0, sched = 0, training = True, running_loss = 7,
      running_corrects = Tensor 5, world = example_world\<rparr>"

definition example_args :: targs where
  "example_args =
     \<lparr>arg_dataset = ''ucf101'', arg_save_dir = ''/p/run/run_0'', arg_num_classes = 101,
      arg_lr = 1 / 1000, num_epochs = 3, save_epoch = 2, arg_useTest = True,
      test_interval = 3\<rparr>"

text \<open>A world that holds the checkpoint of epoch 1, to resume from.\<close>

definition resumed_world :: "(nat, nat) world" where
  "resumed_world =
     \<lparr>files = [''/p/run/run_0/models/simple_vit_3d-ucf101_epoch-0.pth.tar'' \<mapsto>
                 \<lparr>ck_epoch = 1, state_dict = 3, opt_dict = 4\<rparr>,
               ''/p/run/run_0/models/simple_vit_3d-ucf101_epoch-1.pth.tar'' \<mapsto>
                 \<lparr>ck_epoch = 2, state_dict = 5, opt_dict = 7\<rparr>],
      out = []\<rparr>"

text \<open>
  A source whose batches tell a count of equal entries from other counts: under the
  parameter 0 the first batch has three predictions equal to their labels, one below and
  one above; the second has two equal and one below.
\<close>

definition mixed_src :: "nat sources" where
  "mixed_src =
     \<lparr>batches = (\<lambda>split epoch. [([0, 1, 2, 3, 5], [0, 1, 1, 0, 1]), ([4, 6, 8], [0, 0, 1])]),
      dataset_len = (\<lambda>split. 8)\<rparr>"

subsection \<open>Softmax and the index of the maximum, over the reals\<close>








section \<open>Properties\<close>

subsection \<open>Strings, sorting and the run directory\<close>

lemma split_on_length: "length (split_on c s) = Suc (length (filter (\<lambda>x. x = c) s))"
  by (induction s) (auto split: list.splits)

lemma split_on_not_Nil: "split_on c s \<noteq> []"
  using split_on_length [of c s] by auto

lemma split_on_no_sep: "c \<notin> set s \<Longrightarrow> split_on c s = [s]"
  by (induction s) (auto split: list.splits)

lemma last_split_on_append: "last (split_on c (xs @ c # ys)) = last (split_on c ys)"
proof (induction xs)
  case Nil
  then show ?case by (simp add: split_on_not_Nil)
next
  case (Cons x xs)
  show ?case
  proof (cases "x = c")
    case True
    then show ?thesis using Cons by (simp add: split_on_not_Nil)
  next
    case False
    have "length (split_on c (xs @ c # ys)) \<ge> 2"
      by (simp add: split_on_length)
    then obtain p q ps where s: "split_on c (xs @ c # ys) = p # q # ps"
      by (cases "split_on c (xs @ c # ys)"; cases "tl (split_on c (xs @ c # ys))") auto
    then show ?thesis using False Cons by simp
  qed
qed

lemma last_split_on_suffix:
  "c \<notin> set ys \<Longrightarrow> last (split_on c (xs @ c # ys)) = ys"
  by (simp add: last_split_on_append split_on_no_sep)

lemma is_digit_not_space: "is_digit c \<Longrightarrow> \<not> is_space c"
  by (auto simp add: is_digit_def is_space_def)

lemma py_strip_digits:
  assumes "ds \<noteq> []" "list_all is_digit ds"
  shows "py_strip ds = ds"
proof -
  have h: "\<not> is_space (hd ds)" and l: "\<not> is_space (last ds)"
    using assms by (auto simp add: list_all_iff is_digit_not_space)
  have "dropWhile is_space ds = ds"
    using assms(1) h by (cases ds) simp_all
  moreover have "dropWhile is_space (rev ds) = rev ds"
    using assms(1) l by (cases "rev ds") (auto simp add: last_rev [symmetric] simp del: last_rev)
  ultimately show ?thesis by (simp add: py_strip_def)
qed

lemma py_int_digits:
  assumes "ds \<noteq> []" "list_all is_digit ds"
  shows "py_int ds = Inr (digits_val ds)"
proof -
  obtain c cs where ds: "ds = c # cs" using assms(1) by (cases ds) auto
  have "is_digit c" using assms(2) ds by simp
  then have "c \<noteq> CHR ''-''" "c \<noteq> CHR ''+''" by (auto simp add: is_digit_def)
  then show ?thesis
    using assms py_strip_digits [OF assms] ds by (simp add: py_int_def py_int_unsigned_def)
qed

lemma append_less_iff: "(p @ a < p @ b) = (a < (b :: 'a :: linorder list))"
  by (induction p) simp_all

lemma append_le_iff: "(p @ a \<le> p @ b) = (a \<le> (b :: 'a :: linorder list))"
  by (induction p) simp_all

lemma sort_map_append:
  "sort (map (\<lambda>n. p @ n) xs) = map (\<lambda>n. p @ n) (sort (xs :: 'a :: linorder list list))"
proof (rule properties_for_sort)
  show "mset (map ((@) p) (sort xs)) = mset (map ((@) p) xs)" by simp
  show "sorted (map ((@) p) (sort xs))"
    by (simp add: sorted_map append_le_iff)
qed

lemma path_join_run_entry:
  "take 4 n = ''run_'' \<Longrightarrow>
   path_join (path_join base ''run'') n = (path_join base ''run'' @ ''/'') @ n"
  by (cases n) (auto simp add: path_join_def)

lemma glob_runs_eq:
  "glob_runs base entries =
     map (\<lambda>n. (path_join base ''run'' @ ''/'') @ n) (filter (\<lambda>n. take 4 n = ''run_'') entries)"
  unfolding glob_runs_def by (rule map_cong) (auto simp add: path_join_run_entry)

lemma is_digit_not_underscore: "is_digit c \<Longrightarrow> c \<noteq> CHR ''_''"
  by (auto simp add: is_digit_def)

lemma run_integer_suffix:
  assumes "is_run_integer n"
  shows "py_int (last (split_on CHR ''_'' (p @ n))) = Inr (digits_val (drop 4 n))"
proof -
  have n: "n = ''run'' @ CHR ''_'' # drop 4 n"
    using assms append_take_drop_id [of 4 n] by (simp add: is_run_integer_def)
  have d: "drop 4 n \<noteq> []" "list_all is_digit (drop 4 n)"
    using assms by (simp_all add: is_run_integer_def)
  have "CHR ''_'' \<notin> set (drop 4 n)"
    using d(2) is_digit_not_underscore by (auto simp add: list_all_iff)
  then have "last (split_on CHR ''_'' ((p @ ''run'') @ CHR ''_'' # drop 4 n)) = drop 4 n"
    by (rule last_split_on_suffix)
  then have "last (split_on CHR ''_'' (p @ n)) = drop 4 n"
    using n by (metis append.assoc)
  then show ?thesis using py_int_digits [OF d] by simp
qed

subsection \<open>Frames and accumulators of the batch loops\<close>


lemma and_then_Inr [simp]: "and_then (Inr a) f = f a"
  by (simp add: and_then_def)

lemma and_then_Inl [simp]: "and_then (Inl e) f = Inl e"
  by (simp add: and_then_def)

lemma and_then_eq_Inr:
  "and_then r f = Inr b \<longleftrightarrow> (\<exists>a. r = Inr a \<and> f a = Inr b)"
  by (cases r) simp_all

lemma emit_simps [simp]:
  "params (emit e st) = params st" "grads (emit e st) = grads st" "opt (emit e st) = opt st"
  "sched (emit e st) = sched st" "training (emit e st) = training st"
  "running_loss (emit e st) = running_loss st"
  "running_corrects (emit e st) = running_corrects st"
  "out (world (emit e st)) = out (world st) @ [e]"
  "files (world (emit e st)) = files (world st)"
  by (simp_all add: emit_def)

lemma torch_save_simps [simp]:
  "params (torch_save path ck st) = params st" "grads (torch_save path ck st) = grads st"
  "opt (torch_save path ck st) = opt st" "sched (torch_save path ck st) = sched st"
  "training (torch_save path ck st) = training st"
  "out (world (torch_save path ck st)) = out (world st) @ [TorchSave path ck]"
  "files (world (torch_save path ck st)) = (files (world st))(path \<mapsto> ck)"
  by (simp_all add: torch_save_def)

lemma batch_loop_frame:
  "world (batch_loop rt phase bs st) = world st \<and>
   training (batch_loop rt phase bs st) = training st \<and>
   sched (batch_loop rt phase bs st) = sched st"
  by (induction rt phase bs st rule: batch_loop.induct) (simp_all add: Let_def split: prod.splits)

lemma batch_loop_eval_frame:
  "phase \<noteq> ''train'' \<Longrightarrow>
   params (batch_loop rt phase bs st) = params st \<and> opt (batch_loop rt phase bs st) = opt st"
  by (induction rt phase bs st rule: batch_loop.induct) (simp_all add: Let_def)

lemma test_loop_frame:
  "world (test_loop rt bs st) = world st \<and> training (test_loop rt bs st) = training st \<and>
   sched (test_loop rt bs st) = sched st \<and> params (test_loop rt bs st) = params st \<and>
   opt (test_loop rt bs st) = opt st \<and> grads (test_loop rt bs st) = grads st"
  by (induction rt bs st rule: test_loop.induct) (simp_all add: Let_def)

lemma pass_steps_eval:
  "phase \<noteq> ''train'' \<Longrightarrow> pass_steps rt phase tr p g s bs = map (Pair p) bs"
  by (induction bs arbitrary: g) simp_all

lemma batch_loop_running_loss:
  "running_loss (batch_loop rt phase bs st) =
     running_loss st +
     weighted_loss rt (training st) (pass_steps rt phase (training st) (params st) (grads st) (opt st) bs)"
  by (induction rt phase bs st rule: batch_loop.induct)
     (simp_all add: Let_def weighted_loss_def batch_loss_def batch_size_def split: prod.splits)

lemma batch_loop_running_corrects:
  "running_corrects (batch_loop rt phase bs st) =
     (if bs = [] then running_corrects st
      else Tensor (count_of (running_corrects st) +
             total_correct rt (training st)
               (pass_steps rt phase (training st) (params st) (grads st) (opt st) bs)))"
proof (induction rt phase bs st rule: batch_loop.induct)
  case (1 rt phase st)
  then show ?case by simp
next
  case (2 rt phase inputs labels rest st)
  show ?case
    apply (cases "running_corrects st")
    using 2
    apply (simp_all add: Let_def total_correct_def batch_correct_def split: prod.splits)
    done
qed

lemma test_loop_running_loss:
  "running_loss (test_loop rt bs st) =
     running_loss st + weighted_loss rt (training st) (map (Pair (params st)) bs)"
  by (induction rt bs st rule: test_loop.induct)
     (simp_all add: Let_def weighted_loss_def batch_loss_def batch_size_def)

lemma test_loop_running_corrects:
  "running_corrects (test_loop rt bs st) =
     (if bs = [] then running_corrects st
      else Tensor (count_of (running_corrects st) +
             total_correct rt (training st) (map (Pair (params st)) bs)))"
proof (induction rt bs st rule: test_loop.induct)
  case (1 rt st)
  then show ?case by simp
next
  case (2 rt inputs labels rest st)
  show ?case
    apply (cases "running_corrects st")
    using 2
    apply (simp_all add: Let_def total_correct_def batch_correct_def)
    done
qed

lemma run_phase_empty:
  "dataset_len src phase = 0 \<Longrightarrow> run_phase rt src phase epoch st = Inl (ZeroDivisionError, world st)"
  by (simp add: run_phase_def Let_def batch_loop_frame)

lemma run_phase_no_batches:
  "dataset_len src phase \<noteq> 0 \<Longrightarrow> batches src phase epoch = [] \<Longrightarrow>
   run_phase rt src phase epoch st = Inl (AttributeError, world st)"
  by (simp add: run_phase_def Let_def)

lemma run_phase_Inr:
  assumes "run_phase rt src phase epoch st = Inr st'"
  shows "dataset_len src phase \<noteq> 0" "batches src phase epoch \<noteq> []"
    "out (world st') = out (world st) @
       [AddScalar (loss_tag phase)
          (weighted_loss rt (phase = ''train'') (phase_steps rt src phase epoch st)
             / real (dataset_len src phase)) epoch,
        AddScalar (acc_tag phase)
          (real (total_correct rt (phase = ''train'') (phase_steps rt src phase epoch st))
             / real (dataset_len src phase)) epoch]"
    "files (world st') = files (world st)"
    "training st' = (phase = ''train'')"
    "sched st' = (if phase = ''train'' then sched st + 1 else sched st)"
    "phase \<noteq> ''train'' \<Longrightarrow> params st' = params st \<and> opt st' = opt st"
proof -
  show len: "dataset_len src phase \<noteq> 0"
    using assms run_phase_empty [of src phase rt epoch st] by auto
  show bs: "batches src phase epoch \<noteq> []"
    using assms len run_phase_no_batches [of src phase epoch rt st] by auto
  show "out (world st') = out (world st) @
       [AddScalar (loss_tag phase)
          (weighted_loss rt (phase = ''train'') (phase_steps rt src phase epoch st)
             / real (dataset_len src phase)) epoch,
        AddScalar (acc_tag phase)
          (real (total_correct rt (phase = ''train'') (phase_steps rt src phase epoch st))
             / real (dataset_len src phase)) epoch]"
    using assms len bs
    by (auto simp add: run_phase_def Let_def batch_loop_frame batch_loop_running_loss
        batch_loop_running_corrects loss_tag_def acc_tag_def phase_steps_def phase_opt_def
        split: if_splits)
  show "files (world st') = files (world st)"
    using assms len bs
    by (auto simp add: run_phase_def Let_def batch_loop_frame batch_loop_running_corrects
        split: if_splits)
  show "training st' = (phase = ''train'')"
    using assms len bs
    by (auto simp add: run_phase_def Let_def batch_loop_frame batch_loop_running_corrects
        split: if_splits)
  show "sched st' = (if phase = ''train'' then sched st + 1 else sched st)"
    using assms len bs
    by (auto simp add: run_phase_def Let_def batch_loop_frame batch_loop_running_corrects
        split: if_splits)
  show "phase \<noteq> ''train'' \<Longrightarrow> params st' = params st \<and> opt st' = opt st"
    using assms len bs
    by (auto simp add: run_phase_def Let_def batch_loop_eval_frame batch_loop_running_corrects
        split: if_splits)
qed

lemma run_phase_returns:
  "dataset_len src phase \<noteq> 0 \<Longrightarrow> batches src phase epoch \<noteq> [] \<Longrightarrow>
   \<exists>st'. run_phase rt src phase epoch st = Inr st'"
  by (simp add: run_phase_def Let_def batch_loop_running_corrects)

subsection \<open>The test pass and the two decisions\<close>

lemma test_phase_empty:
  "dataset_len src ''test'' = 0 \<Longrightarrow> test_phase rt src epoch st = Inl (ZeroDivisionError, world st)"
  by (simp add: test_phase_def Let_def test_loop_frame)

lemma test_phase_no_batches:
  "dataset_len src ''test'' \<noteq> 0 \<Longrightarrow> batches src ''test'' epoch = [] \<Longrightarrow>
   test_phase rt src epoch st = Inl (AttributeError, world st)"
  by (simp add: test_phase_def Let_def)

lemma test_phase_returns:
  "dataset_len src ''test'' \<noteq> 0 \<Longrightarrow> batches src ''test'' epoch \<noteq> [] \<Longrightarrow>
   \<exists>st'. test_phase rt src epoch st = Inr st'"
  by (simp add: test_phase_def Let_def test_loop_running_corrects)

lemma test_phase_Inr:
  assumes "test_phase rt src epoch st = Inr st'"
  shows "dataset_len src ''test'' \<noteq> 0" "batches src ''test'' epoch \<noteq> []"
    "out (world st') = out (world st) @
       [AddScalar ''data/test_loss_epoch''
          (weighted_loss rt False (map (Pair (params st)) (batches src ''test'' epoch))
             / real (dataset_len src ''test'')) epoch,
        AddScalar ''data/test_acc_epoch''
          (real (total_correct rt False (map (Pair (params st)) (batches src ''test'' epoch)))
             / real (dataset_len src ''test'')) epoch]"
    "files (world st') = files (world st)"
    "training st' = False" "sched st' = sched st"
    "params st' = params st" "opt st' = opt st" "grads st' = grads st"
proof -
  show len: "dataset_len src ''test'' \<noteq> 0"
    using assms test_phase_empty [of src rt epoch st] by auto
  show bs: "batches src ''test'' epoch \<noteq> []"
    using assms len test_phase_no_batches [of src epoch rt st] by auto
  have st': "st' = emit (AddScalar ''data/test_acc_epoch''
          (real (total_correct rt False (map (Pair (params st)) (batches src ''test'' epoch)))
             / real (dataset_len src ''test'')) epoch)
        (emit (AddScalar ''data/test_loss_epoch''
          (weighted_loss rt False (map (Pair (params st)) (batches src ''test'' epoch))
             / real (dataset_len src ''test'')) epoch)
          (test_loop rt (batches src ''test'' epoch)
             (st\<lparr>training := False, running_loss := 0, running_corrects := PyFloat\<rparr>)))"
    using assms len bs
    by (simp add: test_phase_def Let_def test_loop_running_corrects test_loop_running_loss
        test_loop_frame)
  show "out (world st') = out (world st) @
       [AddScalar ''data/test_loss_epoch''
          (weighted_loss rt False (map (Pair (params st)) (batches src ''test'' epoch))
             / real (dataset_len src ''test'')) epoch,
        AddScalar ''data/test_acc_epoch''
          (real (total_correct rt False (map (Pair (params st)) (batches src ''test'' epoch)))
             / real (dataset_len src ''test'')) epoch]"
    by (simp add: st' test_loop_frame)
  show "files (world st') = files (world st)" by (simp add: st' test_loop_frame)
  show "training st' = False" by (simp add: st' test_loop_frame)
  show "sched st' = sched st" by (simp add: st' test_loop_frame)
  show "params st' = params st" by (simp add: st' test_loop_frame)
  show "opt st' = opt st" by (simp add: st' test_loop_frame)
  show "grads st' = grads st" by (simp add: st' test_loop_frame)
qed

lemma save_step_Inr:
  assumes "save_step sdir g k epoch st = Inr st'"
  shows "k \<noteq> 0"
    "st' = (if epoch mod k = k - 1
            then torch_save (checkpoint_path sdir g epoch)
                   \<lparr>ck_epoch = epoch + 1, state_dict = params st, opt_dict = opt st\<rparr> st
            else st)"
  using assms by (auto simp add: save_step_def split: if_splits)

lemma save_step_returns: "k \<noteq> 0 \<Longrightarrow> \<exists>st'. save_step sdir g k epoch st = Inr st'"
  by (simp add: save_step_def)

lemma test_step_Inr:
  assumes "test_step rt src u k epoch st = Inr st'"
  shows "u \<Longrightarrow> k \<noteq> 0"
    "u \<and> epoch mod k = k - 1 \<Longrightarrow> test_phase rt src epoch st = Inr st'"
    "\<not> (u \<and> epoch mod k = k - 1) \<Longrightarrow> st' = st"
  using assms by (auto simp add: test_step_def split: if_splits)

lemma test_step_returns:
  assumes "\<not> u \<or> (k \<noteq> 0 \<and> (epoch mod k \<noteq> k - 1 \<or> nonempty_split src ''test'' epoch))"
  shows "\<exists>st'. test_step rt src u k epoch st = Inr st'"
  using assms test_phase_returns [of src epoch rt st]
  by (auto simp add: test_step_def nonempty_split_def)

subsection \<open>One epoch\<close>

lemma epoch_body_Inr:
  assumes "epoch_body rt src g a epoch st = Inr st'"
  obtains st1 st2 st3 where
    "run_phase rt src ''train'' epoch st = Inr st1"
    "run_phase rt src ''val'' epoch st1 = Inr st2"
    "save_step (arg_save_dir a) g (save_epoch a) epoch st2 = Inr st3"
    "test_step rt src (arg_useTest a) (test_interval a) epoch st3 = Inr st'"
  using assms unfolding epoch_body_def and_then_eq_Inr by blast

lemma epoch_body_out:
  assumes "epoch_body rt src g a epoch st = Inr st'"
  shows "\<exists>st1. run_phase rt src ''train'' epoch st = Inr st1 \<and>
           params st' = params st1 \<and> opt st' = opt st1 \<and> training st' = False \<and>
           out (world st') = out (world st) @ epoch_events rt src g a epoch st st1 \<and>
           files (world st') =
             (if save_due a epoch
              then (files (world st))(checkpoint_path (arg_save_dir a) g epoch \<mapsto>
                     \<lparr>ck_epoch = epoch + 1, state_dict = params st1, opt_dict = opt st1\<rparr>)
              else files (world st))"
proof -
  from assms obtain st1 st2 st3 where
    tr: "run_phase rt src ''train'' epoch st = Inr st1" and
    va: "run_phase rt src ''val'' epoch st1 = Inr st2" and
    sa: "save_step (arg_save_dir a) g (save_epoch a) epoch st2 = Inr st3" and
    te: "test_step rt src (arg_useTest a) (test_interval a) epoch st3 = Inr st'"
    by (rule epoch_body_Inr)
  have p2: "params st2 = params st1" "opt st2 = opt st1"
    using run_phase_Inr(7) [OF va] by simp_all
  have o1: "out (world st1) = out (world st) @
      [AddScalar ''data/train_loss_epoch''
        (weighted_loss rt True (phase_steps rt src ''train'' epoch st)
           / real (dataset_len src ''train'')) epoch,
       AddScalar ''data/train_acc_epoch''
        (real (total_correct rt True (phase_steps rt src ''train'' epoch st))
           / real (dataset_len src ''train'')) epoch]"
    using run_phase_Inr(3) [OF tr] by (simp add: loss_tag_def acc_tag_def)
  have o2: "out (world st2) = out (world st1) @
      [AddScalar ''data/val_loss_epoch''
        (weighted_loss rt False (map (Pair (params st1)) (batches src ''val'' epoch))
           / real (dataset_len src ''val'')) epoch,
       AddScalar ''data/val_acc_epoch''
        (real (total_correct rt False (map (Pair (params st1)) (batches src ''val'' epoch)))
           / real (dataset_len src ''val'')) epoch]"
    using run_phase_Inr(3) [OF va]
    by (simp add: loss_tag_def acc_tag_def phase_steps_def pass_steps_eval)
  have s3: "st3 = (if save_due a epoch
            then torch_save (checkpoint_path (arg_save_dir a) g epoch)
                   \<lparr>ck_epoch = epoch + 1, state_dict = params st1, opt_dict = opt st1\<rparr> st2
            else st2)"
    using save_step_Inr(2) [OF sa] p2 by (simp add: save_due_def)
  have p3: "params st3 = params st1" "opt st3 = opt st1"
    using s3 p2 by (simp_all split: if_splits)
  have t3: "training st3 = False"
    using s3 run_phase_Inr(5) [OF va] by (simp split: if_splits)
  have f3: "files (world st3) =
             (if save_due a epoch
              then (files (world st))(checkpoint_path (arg_save_dir a) g epoch \<mapsto>
                     \<lparr>ck_epoch = epoch + 1, state_dict = params st1, opt_dict = opt st1\<rparr>)
              else files (world st))"
    using s3 run_phase_Inr(4) [OF va] run_phase_Inr(4) [OF tr] by simp
  have o3: "out (world st3) = out (world st2) @
      (if save_due a epoch
       then [TorchSave (checkpoint_path (arg_save_dir a) g epoch)
              \<lparr>ck_epoch = epoch + 1, state_dict = params st1, opt_dict = opt st1\<rparr>]
       else [])"
    using s3 by simp
  have o4: "params st' = params st1 \<and> opt st' = opt st1 \<and> training st' = False \<and>
      files (world st') = files (world st3) \<and> out (world st') = out (world st3) @
      (if test_due a epoch
       then [AddScalar ''data/test_loss_epoch''
              (weighted_loss rt False (map (Pair (params st1)) (batches src ''test'' epoch))
                 / real (dataset_len src ''test'')) epoch,
            AddScalar ''data/test_acc_epoch''
              (real (total_correct rt False (map (Pair (params st1)) (batches src ''test'' epoch)))
                 / real (dataset_len src ''test'')) epoch]
       else [])"
  proof (cases "test_due a epoch")
    case True
    then have "test_phase rt src epoch st3 = Inr st'"
      using test_step_Inr(2) [OF te] by (simp add: test_due_def)
    from test_phase_Inr(3,4,5,7,8) [OF this] show ?thesis using True p3 by simp
  next
    case False
    then have "st' = st3" using test_step_Inr(3) [OF te] by (simp add: test_due_def)
    then show ?thesis using False p3 t3 by simp
  qed
  show ?thesis
    using tr o1 o2 o3 o4 f3 by (simp add: epoch_events_def)
qed

lemma epoch_body_returns_iff:
  "(\<exists>st'. epoch_body rt src g a epoch st = Inr st') \<longleftrightarrow> epoch_ok src a epoch"
proof
  assume "\<exists>st'. epoch_body rt src g a epoch st = Inr st'"
  then obtain st' where b: "epoch_body rt src g a epoch st = Inr st'" ..
  from b obtain st1 st2 st3 where
    tr: "run_phase rt src ''train'' epoch st = Inr st1" and
    va: "run_phase rt src ''val'' epoch st1 = Inr st2" and
    sa: "save_step (arg_save_dir a) g (save_epoch a) epoch st2 = Inr st3" and
    te: "test_step rt src (arg_useTest a) (test_interval a) epoch st3 = Inr st'"
    by (rule epoch_body_Inr)
  have t: "arg_useTest a \<Longrightarrow> test_interval a \<noteq> 0" using test_step_Inr(1) [OF te] .
  have d: "test_due a epoch \<Longrightarrow> nonempty_split src ''test'' epoch"
    using test_step_Inr(2) [OF te] test_phase_Inr(1,2) [of rt src epoch st3 st']
    by (simp add: test_due_def nonempty_split_def)
  show "epoch_ok src a epoch"
    using run_phase_Inr(1,2) [OF tr] run_phase_Inr(1,2) [OF va] save_step_Inr(1) [OF sa] t d
    by (auto simp add: epoch_ok_def nonempty_split_def)
next
  assume ok: "epoch_ok src a epoch"
  obtain st1 where tr: "run_phase rt src ''train'' epoch st = Inr st1"
    using ok run_phase_returns [of src "''train''" epoch rt st]
    by (auto simp add: epoch_ok_def nonempty_split_def)
  obtain st2 where va: "run_phase rt src ''val'' epoch st1 = Inr st2"
    using ok run_phase_returns [of src "''val''" epoch rt st1]
    by (auto simp add: epoch_ok_def nonempty_split_def)
  obtain st3 where sa: "save_step (arg_save_dir a) g (save_epoch a) epoch st2 = Inr st3"
    using ok save_step_returns [of "save_epoch a" "arg_save_dir a" g epoch st2]
    by (auto simp add: epoch_ok_def)
  obtain st4 where te: "test_step rt src (arg_useTest a) (test_interval a) epoch st3 = Inr st4"
    using ok test_step_returns [of "arg_useTest a" "test_interval a" epoch src rt st3]
    by (auto simp add: epoch_ok_def test_due_def)
  show "\<exists>st'. epoch_body rt src g a epoch st = Inr st'"
    using tr va sa te by (simp add: epoch_body_def)
qed

subsection \<open>The epoch loop and the whole run\<close>

lemma epoch_loop_project:
  assumes body: "\<And>E s s'. epoch_body rt src g a E s = Inr s' \<Longrightarrow>
                   F (out (world s')) = F (out (world s)) @ fE E"
    and run: "epoch_loop rt src g a epoch st = Inr st'"
  shows "F (out (world st')) = F (out (world st)) @ concat (map fE [epoch..num_epochs a - 1])"
  using body run
proof (induction rt src g a epoch st rule: epoch_loop.induct)
  case (1 rt src g a epoch st)
  note step = "1.prems"(1) and loop = "1.prems"(2)
  show ?case
  proof (cases "epoch < num_epochs a")
    case False
    then have "st' = st" using loop by (simp add: epoch_loop.simps)
    then show ?thesis using False by simp
  next
    case True
    then obtain st1 where
      b: "epoch_body rt src g a epoch st = Inr st1" and
      l: "epoch_loop rt src g a (epoch + 1) st1 = Inr st'"
      using loop by (auto simp add: epoch_loop.simps [of rt src g a epoch] split: sum.splits)
    have "F (out (world st')) = F (out (world st1)) @ concat (map fE [epoch + 1..num_epochs a - 1])"
      using "1.IH" [OF True b step l] .
    moreover have "F (out (world st1)) = F (out (world st)) @ fE epoch"
      using step [OF b] .
    moreover have "[epoch..num_epochs a - 1] = epoch # [epoch + 1..num_epochs a - 1]"
      using True by (simp add: upto_rec1)
    ultimately show ?thesis by simp
  qed
qed

lemma epoch_loop_returns:
  assumes "\<forall>E. epoch \<le> E \<and> E < num_epochs a \<longrightarrow> epoch_ok src a E"
  shows "\<exists>st'. epoch_loop rt src g a epoch st = Inr st'"
  using assms
proof (induction rt src g a epoch st rule: epoch_loop.induct)
  case (1 rt src g a epoch st)
  show ?case
  proof (cases "epoch < num_epochs a")
    case False
    then show ?thesis by (simp add: epoch_loop.simps)
  next
    case True
    then have "epoch_ok src a epoch" using "1.prems" by simp
    then obtain st1 where b: "epoch_body rt src g a epoch st = Inr st1"
      using epoch_body_returns_iff [of rt src g a epoch st] by blast
    have "\<exists>st'. epoch_loop rt src g a (epoch + 1) st1 = Inr st'"
      using "1.IH" [OF True b] "1.prems" by simp
    then show ?thesis
      using True b by (simp add: epoch_loop.simps [of rt src g a epoch])
  qed
qed

lemma concat_map_if: "concat (map (\<lambda>x. if P x then [f x] else []) xs) = map f (filter P xs)"
  by (induction xs) simp_all

lemma filter_epoch_events:
  "filter is_save (epoch_events rt src g a epoch st st1) =
     (if save_due a epoch
      then [TorchSave (checkpoint_path (arg_save_dir a) g epoch)
              \<lparr>ck_epoch = epoch + 1, state_dict = params st1, opt_dict = opt st1\<rparr>]
      else [])"
  "filter is_load (epoch_events rt src g a epoch st st1) = []"
  "scalar_steps ''data/train_loss_epoch'' (epoch_events rt src g a epoch st st1) = [epoch]"
  "scalar_steps ''data/test_loss_epoch'' (epoch_events rt src g a epoch st st1) =
     (if test_due a epoch then [epoch] else [])"
  "scalar_steps ''data/test_acc_epoch'' (epoch_events rt src g a epoch st st1) =
     (if test_due a epoch then [epoch] else [])"
  "filter is_test_scalar (epoch_events rt src g a epoch st st1) =
     (if test_due a epoch
      then [AddScalar ''data/test_loss_epoch''
              (weighted_loss rt False (map (Pair (params st1)) (batches src ''test'' epoch))
                 / real (dataset_len src ''test'')) epoch,
            AddScalar ''data/test_acc_epoch''
              (real (total_correct rt False (map (Pair (params st1)) (batches src ''test'' epoch)))
                 / real (dataset_len src ''test'')) epoch]
      else [])"
  by (simp_all add: epoch_events_def is_save_def is_load_def scalar_steps_def is_scalar_def
      step_of_def is_test_scalar_def)

lemma final_state_Some: "final_state r = Some st \<longleftrightarrow> r = Inr st"
  by (cases r) (simp_all add: final_state_def)

lemma pass_steps_batches: "map snd (pass_steps rt phase tr p g s bs) = bs"
  by (induction bs arbitrary: p g s) (auto simp add: Let_def)

lemma pass_steps_sizes:
  "sum_list (map batch_size (pass_steps rt phase tr p g s bs)) =
     sum_list (map (\<lambda>b. length (fst b)) bs)"
proof -
  have "map batch_size (pass_steps rt phase tr p g s bs) =
        map (\<lambda>b. length (fst b)) (map snd (pass_steps rt phase tr p g s bs))"
    by (simp add: batch_size_def comp_def)
  then show ?thesis by (simp add: pass_steps_batches)
qed

lemma weighted_loss_nonneg:
  assumes "\<forall>pb\<in>set steps. 0 \<le> batch_loss rt tr pb"
  shows "0 \<le> weighted_loss rt tr steps"
  unfolding weighted_loss_def using assms by (intro sum_list_nonneg) auto

lemma total_correct_le:
  assumes "\<forall>pb\<in>set steps. batch_correct rt tr pb \<le> batch_size pb"
  shows "total_correct rt tr steps \<le> sum_list (map batch_size steps)"
  unfolding total_correct_def using assms by (intro sum_list_mono) auto

lemma prepare_Inr:
  assumes "prepare rt g a w = Inr st"
  shows "\<exists>ar. select_arch (modelName g) = Inr ar \<and>
           files (world st) = files w \<and>
           out (world st) = out w @
             [NewModel ar (arg_num_classes a), NewCriterion, NewOptimizer (arg_lr a), NewScheduler] @
             (if resume_epoch g = 0 then []
              else [TorchLoad (checkpoint_path (arg_save_dir a) g (resume_epoch g - 1))]) @
             [NewWriter, NewLoader ''train'', NewLoader ''val'', NewLoader ''test''] \<and>
           (if resume_epoch g = 0
            then params st = new_model rt ar (arg_num_classes a) \<and>
                 opt st = new_optimizer rt (new_model rt ar (arg_num_classes a)) (arg_lr a)
            else \<exists>ck. files w (checkpoint_path (arg_save_dir a) g (resume_epoch g - 1)) = Some ck \<and>
                      params st = state_dict ck \<and> opt st = opt_dict ck)"
  using assms
  by (auto simp add: prepare_def Let_def emit_def split: sum.splits if_splits option.splits)

lemma prepare_returns:
  assumes "select_arch (modelName g) = Inr ar"
    and "resume_epoch g = 0 \<or>
         files w (checkpoint_path (arg_save_dir a) g (resume_epoch g - 1)) \<noteq> None"
  shows "\<exists>st. prepare rt g a w = Inr st"
  using assms by (auto simp add: prepare_def Let_def)

lemma train_model_Inr:
  assumes "train_model rt src g a w = Inr st'"
  obtains st0 st1 where "prepare rt g a w = Inr st0"
    "epoch_loop rt src g a (resume_epoch g) st0 = Inr st1" "st' = emit WriterClose st1"
  using assms unfolding train_model_def and_then_eq_Inr by blast

subsection \<open>The count of equal entries, softmax and the index of the maximum\<close>

lemma count_eq_card:
  "count_eq preds labels =
     card {i. i < length preds \<and> i < length labels \<and> preds ! i = labels ! i}"
proof -
  have "count_eq preds labels =
      card {i. i < length (zip preds labels) \<and> (\<lambda>(p, l). p = l) (zip preds labels ! i)}"
    unfolding count_eq_def by (rule length_filter_conv_card)
  also have "{i. i < length (zip preds labels) \<and> (\<lambda>(p, l). p = l) (zip preds labels ! i)} =
      {i. i < length preds \<and> i < length labels \<and> preds ! i = labels ! i}"
    by auto
  finally show ?thesis .
qed








section \<open>The claims\<close>

subsection \<open>The run directory\<close>

text \<open>
  C3, as the code has it. The script globs \<^verbatim>\<open>run_*\<close>, so it lists every entry whose
  name starts with \<^verbatim>\<open>run_\<close>, not only those named \<^verbatim>\<open>run_<integer>\<close>. When the
  path of the script's directory holds no glob metacharacter and every entry listed is
  named \<^verbatim>\<open>run_<integer>\<close>, it resolves as the specification says: the entries
  sorted as strings, the integer of the last one when resuming, that integer plus one
  when starting fresh, and 0 in both cases when there is none.
\<close>

theorem run_id_refines_spec:
  assumes plain: "\<not> has_magic base"
    and named: "\<forall>n\<in>set entries. take 4 n = ''run_'' \<longrightarrow> is_run_integer n"
  shows "run_id resume base entries = Inr (spec_run_id (resume \<noteq> 0) entries)"
proof -
  have f: "filter (\<lambda>n. take 4 n = ''run_'') entries = filter is_run_integer entries"
    using named by (intro filter_cong) (auto simp add: is_run_integer_def)
  define rs where "rs = sort (filter is_run_integer entries)"
  define pre where "pre = path_join base ''run'' @ ''/''"
  have g: "sort (glob_runs base entries) = map (\<lambda>n. pre @ n) rs"
    unfolding glob_runs_eq f rs_def pre_def by (rule sort_map_append)
  show ?thesis
  proof (cases "rs = []")
    case True
    then show ?thesis
      using g by (simp add: run_id_def spec_run_id_def Let_def rs_def [symmetric])
  next
    case False
    then have "last rs \<in> set rs" by simp
    then have "is_run_integer (last rs)" by (simp add: rs_def)
    then have "py_int (last (split_on CHR ''_'' (pre @ last rs))) = Inr (digits_val (drop 4 (last rs)))"
      by (rule run_integer_suffix)
    moreover have "last (map (\<lambda>n. pre @ n) rs) = pre @ last rs"
      using False by (simp add: last_map)
    ultimately show ?thesis
      using False g by (simp add: run_id_def spec_run_id_def Let_def rs_def [symmetric])
  qed
qed

text \<open>
  The specification's own examples: with \<^verbatim>\<open>run_1\<close>, \<^verbatim>\<open>run_2\<close>, \<^verbatim>\<open>run_5\<close> a fresh
  start resolves to 6 and a resume to 5; with no entry both resolve to 0.
\<close>

theorem run_id_refines_spec_witness:
  "\<not> has_magic ''/home/u/proj'' \<and>
   is_run_integer ''run_1'' \<and> is_run_integer ''run_2'' \<and> is_run_integer ''run_5'' \<and>
   run_id 0 ''/home/u/proj'' [''run_1'', ''run_2'', ''run_5''] = Inr 6 \<and>
   run_id 3 ''/home/u/proj'' [''run_1'', ''run_2'', ''run_5''] = Inr 5 \<and>
   run_id 0 ''/home/u/proj'' [] = Inr 0 \<and>
   run_id 3 ''/home/u/proj'' [] = Inr 0"
proof -
  have h: "\<forall>n\<in>set [''run_1'', ''run_2'', ''run_5'']. take 4 n = ''run_'' \<longrightarrow> is_run_integer n"
    by (simp add: is_run_integer_def is_digit_def)
  have e: "\<forall>n\<in>set ([] :: string list). take 4 n = ''run_'' \<longrightarrow> is_run_integer n"
    by simp
  have s: "spec_run_id False [''run_1'', ''run_2'', ''run_5''] = 6"
    "spec_run_id True [''run_1'', ''run_2'', ''run_5''] = 5"
    "spec_run_id False [] = 0" "spec_run_id True [] = 0"
    by code_simp+
  have i: "is_run_integer ''run_1''" "is_run_integer ''run_2''" "is_run_integer ''run_5''"
    by (simp_all add: is_run_integer_def is_digit_def)
  have m: "\<not> has_magic ''/home/u/proj''"
    by (simp add: has_magic_def)
  show ?thesis
    using m i s
      run_id_refines_spec [OF m h, of 0]
      run_id_refines_spec [OF m h, of 3]
      run_id_refines_spec [OF m e, of 0]
      run_id_refines_spec [OF m e, of 3]
    by simp
qed

text \<open>
  C3 as the claim words it fails on the code: in a directory whose path is plain text,
  next to \<^verbatim>\<open>run_1\<close>, an entry \<^verbatim>\<open>run_x\<close> is listed too, sorts last, and
  \<^verbatim>\<open>int('x')\<close> raises \<^verbatim>\<open>ValueError\<close>, where the resolver of the claim skips it and
  answers 2 and 1.
\<close>

theorem run_id_counterexample:
  "\<not> has_magic ''/home/u/proj'' \<and>
   run_id 0 ''/home/u/proj'' [''run_1'', ''run_x''] = Inl ValueError \<and>
   spec_run_id False [''run_1'', ''run_x''] = 2 \<and>
   run_id 3 ''/home/u/proj'' [''run_1'', ''run_x''] = Inl ValueError \<and>
   spec_run_id True [''run_1'', ''run_x''] = 1"
  by code_simp

subsection \<open>Unknown names\<close>

text \<open>
  C8. A dataset name other than \<^verbatim>\<open>hmdb51\<close> and \<^verbatim>\<open>ucf101\<close> makes the script raise
  \<^verbatim>\<open>NotImplementedError\<close> with the world untouched: nothing was constructed, loaded or
  written. A model name outside the four architectures makes \<^verbatim>\<open>train_model\<close> raise
  \<^verbatim>\<open>NotImplementedError\<close>, and the script end in an exception, again with the world
  untouched: no model, criterion, optimizer, scheduler or loader was constructed.
\<close>

theorem unknown_names_raise_before_construction:
  "(dataset g \<notin> {''hmdb51'', ''ucf101''} \<longrightarrow>
      main rt src g base entries w = Inl (NotImplementedError, w)) \<and>
   (modelName g \<notin> {''cct_3d'', ''simple_vit_3d'', ''vit_3d'', ''vivit''} \<longrightarrow>
      train_model rt src g a w = Inl (NotImplementedError, w) \<and>
      (\<exists>e. main rt src g base entries w = Inl (e, w)))"
proof (intro conjI impI)
  assume "dataset g \<notin> {''hmdb51'', ''ucf101''}"
  then show "main rt src g base entries w = Inl (NotImplementedError, w)"
    by (simp add: main_def num_classes_def)
next
  assume m: "modelName g \<notin> {''cct_3d'', ''simple_vit_3d'', ''vit_3d'', ''vivit''}"
  then have t: "train_model rt src g a' w = Inl (NotImplementedError, w)" for a'
    by (simp add: train_model_def prepare_def select_arch_def)
  show "train_model rt src g a w = Inl (NotImplementedError, w)" by (rule t)
  show "\<exists>e. main rt src g base entries w = Inl (e, w)"
    by (simp add: main_def t split: sum.splits)
qed

theorem unknown_names_raise_before_construction_witness:
  "''kinetics'' \<notin> {''hmdb51'', ''ucf101''} \<and>
   main example_rt example_src (shipped\<lparr>dataset := ''kinetics''\<rparr>) ''/p'' [''run_3''] example_world
     = Inl (NotImplementedError, example_world) \<and>
   ''C3D'' \<notin> {''cct_3d'', ''simple_vit_3d'', ''vit_3d'', ''vivit''} \<and>
   train_model example_rt example_src (shipped\<lparr>modelName := ''C3D''\<rparr>) example_args example_world
     = Inl (NotImplementedError, example_world)"
  using unknown_names_raise_before_construction
      [of "shipped\<lparr>dataset := ''kinetics''\<rparr>" example_rt example_src "''/p''" "[''run_3'']"
          example_world example_args]
    unknown_names_raise_before_construction
      [of "shipped\<lparr>modelName := ''C3D''\<rparr>" example_rt example_src "''/p''" "[''run_3'']"
          example_world example_args]
  by (simp add: shipped_def)

subsection \<open>The empty source\<close>

text \<open>
  C9, as the code has it. A pass over a source whose dataset has length zero takes
  neither way out that the specification offers: the division of the running loss by the
  length raises \<^verbatim>\<open>ZeroDivisionError\<close>, in the train and validation phases and in the
  test phase alike, and no scalar is written.
\<close>

theorem empty_source_raises_zero_division:
  "(dataset_len src phase = 0 \<longrightarrow>
      run_phase rt src phase epoch st = Inl (ZeroDivisionError, world st)) \<and>
   (dataset_len src ''test'' = 0 \<longrightarrow>
      test_phase rt src epoch st = Inl (ZeroDivisionError, world st))"
  by (simp add: run_phase_empty test_phase_empty)

theorem empty_source_raises_zero_division_witness:
  "dataset_len empty_src ''val'' = 0 \<and>
   run_phase example_rt empty_src ''val'' 0 example_state = Inl (ZeroDivisionError, example_world) \<and>
   dataset_len empty_src ''test'' = 0 \<and>
   test_phase example_rt empty_src 0 example_state = Inl (ZeroDivisionError, example_world)"
  using empty_source_raises_zero_division [of empty_src "''val''" example_rt 0 example_state]
  by (simp add: empty_src_def example_state_def)

text \<open>
  C9 as the claim words it fails on the code: the validation pass over the empty source
  ends in \<^verbatim>\<open>ZeroDivisionError\<close>, which is neither a pair of zero averages nor
  \<open>EmptyDatasetError\<close>.
\<close>

theorem empty_source_counterexample:
  "run_phase example_rt empty_src ''val'' 0 example_state = Inl (ZeroDivisionError, example_world) \<and>
   \<not> spec_empty_pass (run_phase example_rt empty_src ''val'' 0 example_state) \<and>
   test_phase example_rt empty_src 0 example_state = Inl (ZeroDivisionError, example_world) \<and>
   \<not> spec_empty_pass (test_phase example_rt empty_src 0 example_state)"
  by (simp add: run_phase_empty test_phase_empty empty_src_def example_state_def
      spec_empty_pass_def)

subsection \<open>The checkpoint decision\<close>

text \<open>
  C1, as the code has it. In an epoch \<open>E\<close> that runs to its end, the script writes
  exactly one checkpoint when \<open>E mod save_epoch = save_epoch - 1\<close> and none otherwise.
  The file is \<^verbatim>\<open><save_dir>/models/<modelName>-<dataset>_epoch-<E>.pth.tar\<close>; it holds
  the model state and the optimizer state of the end of the epoch, and its epoch field is
  \<open>E + 1\<close>, the number of the next epoch, not \<open>E\<close>. Over a whole run the checkpoints
  written are those of the due epochs from \<open>resume_epoch\<close> to \<open>num_epochs - 1\<close>, in
  order.
\<close>

theorem checkpoint_written_when_due:
  "(epoch_body rt src g a E st = Inr st' \<longrightarrow>
      filter is_save (out (world st')) =
        filter is_save (out (world st)) @
        (if E mod save_epoch a = save_epoch a - 1
         then [TorchSave
                 (path_join (path_join (arg_save_dir a) ''models'')
                    (modelName g @ ''-'' @ dataset g @ ''_epoch-'' @ py_str E @ ''.pth.tar''))
                 \<lparr>ck_epoch = E + 1, state_dict = params st', opt_dict = opt st'\<rparr>]
         else []) \<and>
      files (world st') =
        (if E mod save_epoch a = save_epoch a - 1
         then (files (world st))
                (path_join (path_join (arg_save_dir a) ''models'')
                   (modelName g @ ''-'' @ dataset g @ ''_epoch-'' @ py_str E @ ''.pth.tar'') \<mapsto>
                 \<lparr>ck_epoch = E + 1, state_dict = params st', opt_dict = opt st'\<rparr>)
         else files (world st))) \<and>
   (train_model rt src g a w = Inr fin \<longrightarrow>
      map save_key (filter is_save (out (world fin))) =
        map save_key (filter is_save (out w)) @
        map (\<lambda>E. (checkpoint_path (arg_save_dir a) g E, E + 1))
          (filter (\<lambda>E. E mod save_epoch a = save_epoch a - 1)
             [resume_epoch g..num_epochs a - 1]))"
proof (intro conjI impI)
  assume b: "epoch_body rt src g a E st = Inr st'"
  from epoch_body_out [OF b] obtain st1 where
    p: "params st' = params st1" "opt st' = opt st1" and
    o: "out (world st') = out (world st) @ epoch_events rt src g a E st st1" and
    f: "files (world st') =
          (if save_due a E
           then (files (world st))(checkpoint_path (arg_save_dir a) g E \<mapsto>
                  \<lparr>ck_epoch = E + 1, state_dict = params st1, opt_dict = opt st1\<rparr>)
           else files (world st))"
    by blast
  show "filter is_save (out (world st')) =
        filter is_save (out (world st)) @
        (if E mod save_epoch a = save_epoch a - 1
         then [TorchSave
                 (path_join (path_join (arg_save_dir a) ''models'')
                    (modelName g @ ''-'' @ dataset g @ ''_epoch-'' @ py_str E @ ''.pth.tar''))
                 \<lparr>ck_epoch = E + 1, state_dict = params st', opt_dict = opt st'\<rparr>]
         else [])"
    using o p by (simp add: filter_epoch_events save_due_def checkpoint_path_def saveName_def)
  show "files (world st') =
        (if E mod save_epoch a = save_epoch a - 1
         then (files (world st))
                (path_join (path_join (arg_save_dir a) ''models'')
                   (modelName g @ ''-'' @ dataset g @ ''_epoch-'' @ py_str E @ ''.pth.tar'') \<mapsto>
                 \<lparr>ck_epoch = E + 1, state_dict = params st', opt_dict = opt st'\<rparr>)
         else files (world st))"
    using f p by (simp add: save_due_def checkpoint_path_def saveName_def)
next
  assume t: "train_model rt src g a w = Inr fin"
  from t obtain st0 st1 where
    pr: "prepare rt g a w = Inr st0" and
    lp: "epoch_loop rt src g a (resume_epoch g) st0 = Inr st1" and
    fin: "fin = emit WriterClose st1"
    by (rule train_model_Inr)
  have step: "map save_key (filter is_save (out (world s'))) =
      map save_key (filter is_save (out (world s))) @
      (if E mod save_epoch a = save_epoch a - 1
       then [(checkpoint_path (arg_save_dir a) g E, E + 1)] else [])"
    if "epoch_body rt src g a E s = Inr s'" for E s s'
    using epoch_body_out [OF that]
    by (auto simp add: filter_epoch_events save_due_def save_key_def)
  have "map save_key (filter is_save (out (world st1))) =
      map save_key (filter is_save (out (world st0))) @
      concat (map (\<lambda>E. if E mod save_epoch a = save_epoch a - 1
                        then [(checkpoint_path (arg_save_dir a) g E, E + 1)] else [])
                [resume_epoch g..num_epochs a - 1])"
    using step lp
    by (rule epoch_loop_project [where F = "\<lambda>es. map save_key (filter is_save es)"])
  moreover have "filter is_save (out (world st0)) = filter is_save (out w)"
    using prepare_Inr [OF pr] by (auto simp add: is_save_def)
  ultimately show "map save_key (filter is_save (out (world fin))) =
        map save_key (filter is_save (out w)) @
        map (\<lambda>E. (checkpoint_path (arg_save_dir a) g E, E + 1))
          (filter (\<lambda>E. E mod save_epoch a = save_epoch a - 1)
             [resume_epoch g..num_epochs a - 1])"
    by (simp add: fin concat_map_if is_save_def)
qed

theorem checkpoint_written_when_due_witness:
  "(\<exists>st'. epoch_body example_rt example_src shipped example_args 1 example_state = Inr st' \<and>
      filter is_save (out (world st')) =
        [TorchSave ''/p/run/run_0/models/simple_vit_3d-ucf101_epoch-1.pth.tar''
           \<lparr>ck_epoch = 2, state_dict = 2, opt_dict = 2\<rparr>]) \<and>
   (\<exists>st'. epoch_body example_rt example_src shipped example_args 2 example_state = Inr st' \<and>
      filter is_save (out (world st')) = []) \<and>
   (\<exists>fin. train_model example_rt example_src shipped example_args example_world = Inr fin \<and>
      map save_key (filter is_save (out (world fin))) =
        [(''/p/run/run_0/models/simple_vit_3d-ucf101_epoch-1.pth.tar'', 2)])"
proof (intro conjI)
  have "final_state (epoch_body example_rt example_src shipped example_args 1 example_state) \<noteq> None"
    "map_option params (final_state (epoch_body example_rt example_src shipped example_args 1 example_state)) = Some 2"
    "map_option opt (final_state (epoch_body example_rt example_src shipped example_args 1 example_state)) = Some 2"
    by code_simp+
  then obtain st' where
    b: "epoch_body example_rt example_src shipped example_args 1 example_state = Inr st'" and
    p: "params st' = 2" "opt st' = 2"
    by (auto simp add: final_state_Some)
  have path: "path_join (path_join (arg_save_dir example_args) ''models'')
      (modelName shipped @ ''-'' @ dataset shipped @ ''_epoch-'' @ py_str 1 @ ''.pth.tar'') =
      ''/p/run/run_0/models/simple_vit_3d-ucf101_epoch-1.pth.tar''"
    by code_simp
  have r: "filter is_save (out (world st')) =
        [TorchSave ''/p/run/run_0/models/simple_vit_3d-ucf101_epoch-1.pth.tar''
           \<lparr>ck_epoch = 2, state_dict = 2, opt_dict = 2\<rparr>]"
    using checkpoint_written_when_due
        [of example_rt example_src shipped example_args 1 example_state st'] b p path
    by (simp add: example_args_def example_state_def example_world_def)
  show "\<exists>st'. epoch_body example_rt example_src shipped example_args 1 example_state = Inr st' \<and>
      filter is_save (out (world st')) =
        [TorchSave ''/p/run/run_0/models/simple_vit_3d-ucf101_epoch-1.pth.tar''
           \<lparr>ck_epoch = 2, state_dict = 2, opt_dict = 2\<rparr>]"
    by (rule exI [of _ st']) (simp add: b r)
next
  have "final_state (epoch_body example_rt example_src shipped example_args 2 example_state) \<noteq> None"
    by code_simp
  then obtain st' where
    b: "epoch_body example_rt example_src shipped example_args 2 example_state = Inr st'"
    by (auto simp add: final_state_Some)
  have r: "filter is_save (out (world st')) = []"
    using checkpoint_written_when_due
        [of example_rt example_src shipped example_args 2 example_state st'] b
    by (simp add: example_args_def example_state_def example_world_def)
  show "\<exists>st'. epoch_body example_rt example_src shipped example_args 2 example_state = Inr st' \<and>
      filter is_save (out (world st')) = []"
    by (rule exI [of _ st']) (simp add: b r)
next
  have "final_state (train_model example_rt example_src shipped example_args example_world) \<noteq> None"
    by code_simp
  then obtain fin where
    t: "train_model example_rt example_src shipped example_args example_world = Inr fin"
    by (auto simp add: final_state_Some)
  have due: "map (\<lambda>E. (checkpoint_path (arg_save_dir example_args) shipped E, E + 1))
          (filter (\<lambda>E. E mod save_epoch example_args = save_epoch example_args - 1)
             [resume_epoch shipped..num_epochs example_args - 1]) =
        [(''/p/run/run_0/models/simple_vit_3d-ucf101_epoch-1.pth.tar'', 2)]"
    by code_simp
  have r: "map save_key (filter is_save (out (world fin))) =
        [(''/p/run/run_0/models/simple_vit_3d-ucf101_epoch-1.pth.tar'', 2)]"
    using checkpoint_written_when_due
        [of example_rt example_src shipped example_args _ _ _ example_world fin] t due
    by (simp add: example_world_def)
  show "\<exists>fin. train_model example_rt example_src shipped example_args example_world = Inr fin \<and>
      map save_key (filter is_save (out (world fin))) =
        [(''/p/run/run_0/models/simple_vit_3d-ucf101_epoch-1.pth.tar'', 2)]"
    by (rule exI [of _ fin]) (simp add: t r)
qed

text \<open>
  C1 as the claim words it fails on the code: after epoch 1 with a save interval of 2, the
  file written holds the epoch field 2, not the current epoch 1.
\<close>

theorem checkpoint_epoch_field_counterexample:
  "saved_file (epoch_body example_rt example_src shipped example_args 1 example_state)
     ''/p/run/run_0/models/simple_vit_3d-ucf101_epoch-1.pth.tar''
     = Some \<lparr>ck_epoch = 2, state_dict = 2, opt_dict = 2\<rparr> \<and>
   map_option (spec_checkpoint 1)
       (final_state (epoch_body example_rt example_src shipped example_args 1 example_state))
     = Some \<lparr>ck_epoch = 1, state_dict = 2, opt_dict = 2\<rparr> \<and>
   saved_file (epoch_body example_rt example_src shipped example_args 1 example_state)
     ''/p/run/run_0/models/simple_vit_3d-ucf101_epoch-1.pth.tar''
     \<noteq> map_option (spec_checkpoint 1)
         (final_state (epoch_body example_rt example_src shipped example_args 1 example_state))"
  by code_simp

subsection \<open>Evaluation passes\<close>

text \<open>
  C6. A validation pass and a test pass leave the model's state dictionary and the
  optimizer's state as they found them: over any batches, the batch loop of a phase other
  than \<^verbatim>\<open>train\<close> and the test loop only call the forward pass, so the state after the
  pass equals the state before it, and the model is left in evaluation mode. (The
  validation loop still calls \<^verbatim>\<open>optimizer.zero_grad()\<close>, which clears the gradients
  and touches no parameter; the test loop leaves the gradients alone too.)
\<close>

theorem evaluation_pass_keeps_parameters:
  "(phase \<noteq> ''train'' \<longrightarrow>
      params (batch_loop rt phase bs st) = params st \<and>
      opt (batch_loop rt phase bs st) = opt st) \<and>
   (phase \<noteq> ''train'' \<and> run_phase rt src phase E st = Inr st' \<longrightarrow>
      params st' = params st \<and> opt st' = opt st \<and> training st' = False) \<and>
   params (test_loop rt bs st) = params st \<and>
   opt (test_loop rt bs st) = opt st \<and>
   grads (test_loop rt bs st) = grads st \<and>
   (test_phase rt src E st = Inr st'' \<longrightarrow>
      params st'' = params st \<and> opt st'' = opt st \<and> grads st'' = grads st \<and>
      training st'' = False)"
proof (intro conjI impI)
  assume "phase \<noteq> ''train''"
  then show "params (batch_loop rt phase bs st) = params st"
    and "opt (batch_loop rt phase bs st) = opt st"
    by (simp_all add: batch_loop_eval_frame)
next
  assume a: "phase \<noteq> ''train'' \<and> run_phase rt src phase E st = Inr st'"
  then have r: "run_phase rt src phase E st = Inr st'" and n: "phase \<noteq> ''train''"
    by simp_all
  show "params st' = params st" "opt st' = opt st"
    using run_phase_Inr(7) [OF r n] by simp_all
  show "training st' = False"
    using run_phase_Inr(5) [OF r] n by simp
next
  show "params (test_loop rt bs st) = params st" "opt (test_loop rt bs st) = opt st"
    "grads (test_loop rt bs st) = grads st"
    by (simp_all add: test_loop_frame)
next
  assume t: "test_phase rt src E st = Inr st''"
  show "params st'' = params st" "opt st'' = opt st" "grads st'' = grads st"
    "training st'' = False"
    using test_phase_Inr(5,7,8,9) [OF t] by simp_all
qed

text \<open>
  On the example, the training pass of epoch 0 moves the parameters from 0 to 2; the
  validation pass and the test pass that follow keep them at 2.
\<close>

theorem evaluation_pass_keeps_parameters_witness:
  "\<exists>st1 st2 st3.
     run_phase example_rt example_src ''train'' 0 example_state = Inr st1 \<and>
     params example_state = 0 \<and> params st1 = 2 \<and>
     ''val'' \<noteq> ''train'' \<and>
     run_phase example_rt example_src ''val'' 0 st1 = Inr st2 \<and>
     params st2 = 2 \<and> opt st2 = opt st1 \<and>
     test_phase example_rt example_src 0 st2 = Inr st3 \<and>
     params st3 = 2 \<and> opt st3 = opt st1 \<and> training st3 = False"
proof -
  have "final_state (run_phase example_rt example_src ''train'' 0 example_state) \<noteq> None"
    "map_option params (final_state (run_phase example_rt example_src ''train'' 0 example_state))
       = Some 2"
    by code_simp+
  then obtain st1 where
    r1: "run_phase example_rt example_src ''train'' 0 example_state = Inr st1" and
    p1: "params st1 = 2"
    by (auto simp add: final_state_Some)
  obtain st2 where r2: "run_phase example_rt example_src ''val'' 0 st1 = Inr st2"
    using run_phase_returns [of example_src "''val''" 0 example_rt st1]
    by (auto simp add: example_src_def)
  obtain st3 where r3: "test_phase example_rt example_src 0 st2 = Inr st3"
    using test_phase_returns [of example_src 0 example_rt st2]
    by (auto simp add: example_src_def)
  have v: "params st2 = params st1 \<and> opt st2 = opt st1"
    using evaluation_pass_keeps_parameters
        [of "''val''" example_rt _ st1 example_src 0 st2] r2
    by simp
  have t: "params st3 = params st2 \<and> opt st3 = opt st2 \<and> training st3 = False"
    using evaluation_pass_keeps_parameters
        [of _ example_rt _ st2 example_src 0 _ st3] r3
    by simp
  show ?thesis
    apply (rule exI [of _ st1])
    apply (rule exI [of _ st2])
    apply (rule exI [of _ st3])
    using r1 p1 r2 r3 v t
    apply (simp add: example_state_def)
    done
qed

subsection \<open>What a pass reports\<close>

text \<open>
  C5. Whatever the running loss and the running correct-count held before, a pass that
  runs to its end writes as its loss the sum over its batches of the batch's loss times
  the batch's size, divided by the length of the dataset, and as its accuracy the sum
  over its batches of the number of predictions equal to their labels, divided by the
  length of the dataset. Each batch is evaluated under the parameters in force when it is
  reached: those of the start for a validation or test pass, those left by the optimizer
  steps so far for a training pass. The size of a batch is its number of clips, its loss
  is the criterion on the model's output and the labels, and its number of correct
  predictions is the number of positions at which the index of the maximum of the softmax
  of the output equals the label. A pass runs to its end when the dataset is not empty and
  the loader yields a batch.
\<close>

theorem pass_reports_averages:
  "(run_phase rt src phase E st = Inr st' \<longrightarrow>
      out (world st') = out (world st) @
        [AddScalar (loss_tag phase)
           (sum_list (map (\<lambda>pb. batch_loss rt (phase = ''train'') pb * real (batch_size pb))
                        (phase_steps rt src phase E st))
              / real (dataset_len src phase)) E,
         AddScalar (acc_tag phase)
           (real (sum_list (map (batch_correct rt (phase = ''train''))
                              (phase_steps rt src phase E st)))
              / real (dataset_len src phase)) E]) \<and>
   (phase \<noteq> ''train'' \<longrightarrow>
      phase_steps rt src phase E st = map (Pair (params st)) (batches src phase E)) \<and>
   (test_phase rt src E st = Inr st'' \<longrightarrow>
      out (world st'') = out (world st) @
        [AddScalar ''data/test_loss_epoch''
           (sum_list (map (\<lambda>pb. batch_loss rt False pb * real (batch_size pb))
                        (map (Pair (params st)) (batches src ''test'' E)))
              / real (dataset_len src ''test'')) E,
         AddScalar ''data/test_acc_epoch''
           (real (sum_list (map (batch_correct rt False)
                              (map (Pair (params st)) (batches src ''test'' E))))
              / real (dataset_len src ''test'')) E]) \<and>
   batch_size (p, (inputs, labels)) = length inputs \<and>
   batch_loss rt tr (p, (inputs, labels)) = criterion rt (forward rt p tr inputs) labels \<and>
   batch_correct rt tr (p, (inputs, labels)) =
     card {i. i < length (argmax rt (softmax rt (forward rt p tr inputs))) \<and>
              i < length labels \<and>
              argmax rt (softmax rt (forward rt p tr inputs)) ! i = labels ! i} \<and>
   (nonempty_split src phase E \<longrightarrow> (\<exists>s. run_phase rt src phase E st = Inr s)) \<and>
   (nonempty_split src ''test'' E \<longrightarrow> (\<exists>s. test_phase rt src E st = Inr s))"
proof (intro conjI impI)
  show "batch_size (p, (inputs, labels)) = length inputs"
    by (simp add: batch_size_def)
  show "batch_loss rt tr (p, (inputs, labels)) = criterion rt (forward rt p tr inputs) labels"
    by (simp add: batch_loss_def)
  show "batch_correct rt tr (p, (inputs, labels)) =
     card {i. i < length (argmax rt (softmax rt (forward rt p tr inputs))) \<and>
              i < length labels \<and>
              argmax rt (softmax rt (forward rt p tr inputs)) ! i = labels ! i}"
    by (simp add: batch_correct_def count_eq_card)
next
  assume r: "run_phase rt src phase E st = Inr st'"
  show "out (world st') = out (world st) @
        [AddScalar (loss_tag phase)
           (sum_list (map (\<lambda>pb. batch_loss rt (phase = ''train'') pb * real (batch_size pb))
                        (phase_steps rt src phase E st))
              / real (dataset_len src phase)) E,
         AddScalar (acc_tag phase)
           (real (sum_list (map (batch_correct rt (phase = ''train''))
                              (phase_steps rt src phase E st)))
              / real (dataset_len src phase)) E]"
    using run_phase_Inr(3) [OF r] by (simp add: weighted_loss_def total_correct_def)
next
  assume "phase \<noteq> ''train''"
  then show "phase_steps rt src phase E st = map (Pair (params st)) (batches src phase E)"
    by (simp add: phase_steps_def pass_steps_eval)
next
  assume t: "test_phase rt src E st = Inr st''"
  show "out (world st'') = out (world st) @
        [AddScalar ''data/test_loss_epoch''
           (sum_list (map (\<lambda>pb. batch_loss rt False pb * real (batch_size pb))
                        (map (Pair (params st)) (batches src ''test'' E)))
              / real (dataset_len src ''test'')) E,
         AddScalar ''data/test_acc_epoch''
           (real (sum_list (map (batch_correct rt False)
                              (map (Pair (params st)) (batches src ''test'' E))))
              / real (dataset_len src ''test'')) E]"
    using test_phase_Inr(3) [OF t] by (simp add: weighted_loss_def total_correct_def)
next
  assume "nonempty_split src phase E"
  then show "\<exists>s. run_phase rt src phase E st = Inr s"
    by (simp add: nonempty_split_def run_phase_returns)
next
  assume "nonempty_split src ''test'' E"
  then show "\<exists>s. test_phase rt src E st = Inr s"
    by (simp add: nonempty_split_def test_phase_returns)
qed

text \<open>
  On \<open>mixed_src\<close> the state comes in with a running loss of 7 and a correct-count of
  5, and every dataset has 8 clips in batches of 5 and 3. Under the parameter 0 the
  predictions of the first batch are 0, 1, 0, 1, 1 against the labels 0, 1, 1, 0, 1: three
  are equal, one is below and one above its label. The validation and test passes count
  3 + 2 correct predictions and report the loss (1 * 5 + 1/2 * 3) / 8. The training pass
  reaches the second batch with the parameter 1 and counts 3 + 1.
\<close>

theorem pass_reports_averages_witness:
  "running_loss example_state = 7 \<and> running_corrects example_state = Tensor 5 \<and>
   nonempty_split mixed_src ''val'' 0 \<and> nonempty_split mixed_src ''test'' 0 \<and>
   nonempty_split mixed_src ''train'' 0 \<and>
   batch_correct example_rt False (0, ([0, 1, 2, 3, 5], [0, 1, 1, 0, 1])) = 3 \<and>
   card {i. i < length [0::nat, 1, 0, 1, 1] \<and> i < length [0::nat, 1, 1, 0, 1] \<and>
            [0::nat, 1, 0, 1, 1] ! i = [0, 1, 1, 0, 1] ! i} = 3 \<and>
   (\<exists>s. run_phase example_rt mixed_src ''val'' 0 example_state = Inr s \<and>
      out (world s) =
        [AddScalar ''data/val_loss_epoch'' (13 / 16) 0, AddScalar ''data/val_acc_epoch'' (5 / 8) 0]) \<and>
   (\<exists>s. run_phase example_rt mixed_src ''train'' 0 example_state = Inr s \<and>
      out (world s) =
        [AddScalar ''data/train_loss_epoch'' 1 0, AddScalar ''data/train_acc_epoch'' (1 / 2) 0]) \<and>
   (\<exists>s. test_phase example_rt mixed_src 0 example_state = Inr s \<and>
      out (world s) =
        [AddScalar ''data/test_loss_epoch'' (13 / 16) 0, AddScalar ''data/test_acc_epoch'' (5 / 8) 0])"
proof -
  have n: "nonempty_split mixed_src ''val'' 0" "nonempty_split mixed_src ''test'' 0"
    "nonempty_split mixed_src ''train'' 0"
    by (simp_all add: nonempty_split_def mixed_src_def)
  have fw: "argmax example_rt (softmax example_rt (forward example_rt 0 False [0, 1, 2, 3, 5]))
      = [0, 1, 0, 1, 1]"
    by (simp add: example_rt_def)
  have bc: "batch_correct example_rt False (0, ([0, 1, 2, 3, 5], [0, 1, 1, 0, 1])) = 3"
    by code_simp
  have cd: "card {i. i < length [0::nat, 1, 0, 1, 1] \<and> i < length [0::nat, 1, 1, 0, 1] \<and>
            [0::nat, 1, 0, 1, 1] ! i = [0, 1, 1, 0, 1] ! i} = 3"
    using pass_reports_averages
        [where rt = example_rt and p = 0 and inputs = "[0, 1, 2, 3, 5]" and tr = False
           and labels = "[0, 1, 1, 0, 1]"]
    unfolding fw bc by simp
  obtain s1 where r1: "run_phase example_rt mixed_src ''val'' 0 example_state = Inr s1"
    using pass_reports_averages [of example_rt mixed_src "''val''" 0 example_state] n by blast
  obtain s2 where r2: "test_phase example_rt mixed_src 0 example_state = Inr s2"
    using pass_reports_averages [of example_rt mixed_src "''val''" 0 example_state] n by blast
  obtain s3 where r3: "run_phase example_rt mixed_src ''train'' 0 example_state = Inr s3"
    using pass_reports_averages [of example_rt mixed_src "''train''" 0 example_state] n by blast
  have v: "sum_list (map (\<lambda>pb. batch_loss example_rt (''val'' = ''train'') pb * real (batch_size pb))
             (phase_steps example_rt mixed_src ''val'' 0 example_state))
             / real (dataset_len mixed_src ''val'') = 13 / 16"
    "real (sum_list (map (batch_correct example_rt (''val'' = ''train''))
             (phase_steps example_rt mixed_src ''val'' 0 example_state)))
             / real (dataset_len mixed_src ''val'') = 5 / 8"
    "sum_list (map (\<lambda>pb. batch_loss example_rt (''train'' = ''train'') pb * real (batch_size pb))
             (phase_steps example_rt mixed_src ''train'' 0 example_state))
             / real (dataset_len mixed_src ''train'') = 1"
    "real (sum_list (map (batch_correct example_rt (''train'' = ''train''))
             (phase_steps example_rt mixed_src ''train'' 0 example_state)))
             / real (dataset_len mixed_src ''train'') = 1 / 2"
    "sum_list (map (\<lambda>pb. batch_loss example_rt False pb * real (batch_size pb))
             (map (Pair (params example_state)) (batches mixed_src ''test'' 0)))
             / real (dataset_len mixed_src ''test'') = 13 / 16"
    "real (sum_list (map (batch_correct example_rt False)
             (map (Pair (params example_state)) (batches mixed_src ''test'' 0))))
             / real (dataset_len mixed_src ''test'') = 5 / 8"
    by code_simp+
  have w: "out (world example_state) = []" "loss_tag ''val'' = ''data/val_loss_epoch''"
    "acc_tag ''val'' = ''data/val_acc_epoch''" "loss_tag ''train'' = ''data/train_loss_epoch''"
    "acc_tag ''train'' = ''data/train_acc_epoch''"
    by (simp_all add: example_state_def example_world_def loss_tag_def acc_tag_def)
  have "out (world s1) = out (world example_state) @
        [AddScalar (loss_tag ''val'')
           (sum_list (map (\<lambda>pb. batch_loss example_rt (''val'' = ''train'') pb * real (batch_size pb))
                        (phase_steps example_rt mixed_src ''val'' 0 example_state))
              / real (dataset_len mixed_src ''val'')) 0,
         AddScalar (acc_tag ''val'')
           (real (sum_list (map (batch_correct example_rt (''val'' = ''train''))
                              (phase_steps example_rt mixed_src ''val'' 0 example_state)))
              / real (dataset_len mixed_src ''val'')) 0]"
    using pass_reports_averages [of example_rt mixed_src "''val''" 0 example_state s1] r1
    by blast
  then have o1: "out (world s1) =
        [AddScalar ''data/val_loss_epoch'' (13 / 16) 0, AddScalar ''data/val_acc_epoch'' (5 / 8) 0]"
    unfolding v w by simp
  have "out (world s3) = out (world example_state) @
        [AddScalar (loss_tag ''train'')
           (sum_list (map (\<lambda>pb. batch_loss example_rt (''train'' = ''train'') pb * real (batch_size pb))
                        (phase_steps example_rt mixed_src ''train'' 0 example_state))
              / real (dataset_len mixed_src ''train'')) 0,
         AddScalar (acc_tag ''train'')
           (real (sum_list (map (batch_correct example_rt (''train'' = ''train''))
                              (phase_steps example_rt mixed_src ''train'' 0 example_state)))
              / real (dataset_len mixed_src ''train'')) 0]"
    using pass_reports_averages [of example_rt mixed_src "''train''" 0 example_state s3] r3
    by blast
  then have o3: "out (world s3) =
        [AddScalar ''data/train_loss_epoch'' 1 0, AddScalar ''data/train_acc_epoch'' (1 / 2) 0]"
    unfolding v w by simp
  have "out (world s2) = out (world example_state) @
        [AddScalar ''data/test_loss_epoch''
           (sum_list (map (\<lambda>pb. batch_loss example_rt False pb * real (batch_size pb))
                        (map (Pair (params example_state)) (batches mixed_src ''test'' 0)))
              / real (dataset_len mixed_src ''test'')) 0,
         AddScalar ''data/test_acc_epoch''
           (real (sum_list (map (batch_correct example_rt False)
                              (map (Pair (params example_state)) (batches mixed_src ''test'' 0))))
              / real (dataset_len mixed_src ''test'')) 0]"
    using pass_reports_averages [of example_rt mixed_src "''val''" 0 example_state _ s2] r2
    by blast
  then have o2: "out (world s2) =
        [AddScalar ''data/test_loss_epoch'' (13 / 16) 0, AddScalar ''data/test_acc_epoch'' (5 / 8) 0]"
    unfolding v w by simp
  have e1: "\<exists>s. run_phase example_rt mixed_src ''val'' 0 example_state = Inr s \<and>
      out (world s) =
        [AddScalar ''data/val_loss_epoch'' (13 / 16) 0, AddScalar ''data/val_acc_epoch'' (5 / 8) 0]"
    by (rule exI [of _ s1]) (simp add: r1 o1)
  have e3: "\<exists>s. run_phase example_rt mixed_src ''train'' 0 example_state = Inr s \<and>
      out (world s) =
        [AddScalar ''data/train_loss_epoch'' 1 0, AddScalar ''data/train_acc_epoch'' (1 / 2) 0]"
    by (rule exI [of _ s3]) (simp add: r3 o3)
  have e2: "\<exists>s. test_phase example_rt mixed_src 0 example_state = Inr s \<and>
      out (world s) =
        [AddScalar ''data/test_loss_epoch'' (13 / 16) 0, AddScalar ''data/test_acc_epoch'' (5 / 8) 0]"
    by (rule exI [of _ s2]) (simp add: r2 o2)
  have st: "running_loss example_state = 7" "running_corrects example_state = Tensor 5"
    by (simp_all add: example_state_def)
  show ?thesis
    using st n bc cd e1 e2 e3 by blast
qed

text \<open>
  C7. Take a pass over a source that is not empty, whose dataset length is the total
  number of clips of its batches, where the loss of every batch is non-negative and no
  batch has more correct predictions than clips. The pass runs to its end, and the two
  scalars it writes are a loss that is at least 0 and an accuracy between 0 and 1. This
  holds for the train and validation phases and for the test phase.
\<close>

theorem metrics_in_range:
  "(dataset_len src phase \<noteq> 0 \<and>
    sum_list (map (\<lambda>b. length (fst b)) (batches src phase E)) = dataset_len src phase \<and>
    (\<forall>pb\<in>set (phase_steps rt src phase E st).
        0 \<le> batch_loss rt (phase = ''train'') pb \<and>
        batch_correct rt (phase = ''train'') pb \<le> batch_size pb) \<longrightarrow>
    (\<exists>s l acc. run_phase rt src phase E st = Inr s \<and>
        out (world s) = out (world st) @
          [AddScalar (loss_tag phase) l E, AddScalar (acc_tag phase) acc E] \<and>
        0 \<le> l \<and> 0 \<le> acc \<and> acc \<le> 1)) \<and>
   (dataset_len src ''test'' \<noteq> 0 \<and>
    sum_list (map (\<lambda>b. length (fst b)) (batches src ''test'' E)) = dataset_len src ''test'' \<and>
    (\<forall>b\<in>set (batches src ''test'' E).
        0 \<le> batch_loss rt False (params st, b) \<and>
        batch_correct rt False (params st, b) \<le> length (fst b)) \<longrightarrow>
    (\<exists>s l acc. test_phase rt src E st = Inr s \<and>
        out (world s) = out (world st) @
          [AddScalar ''data/test_loss_epoch'' l E, AddScalar ''data/test_acc_epoch'' acc E] \<and>
        0 \<le> l \<and> 0 \<le> acc \<and> acc \<le> 1))"
proof (intro conjI impI)
  assume h: "dataset_len src phase \<noteq> 0 \<and>
    sum_list (map (\<lambda>b. length (fst b)) (batches src phase E)) = dataset_len src phase \<and>
    (\<forall>pb\<in>set (phase_steps rt src phase E st).
        0 \<le> batch_loss rt (phase = ''train'') pb \<and>
        batch_correct rt (phase = ''train'') pb \<le> batch_size pb)"
  define steps where "steps = phase_steps rt src phase E st"
  define n where "n = dataset_len src phase"
  have n: "n \<noteq> 0" using h by (simp add: n_def)
  have bs: "batches src phase E \<noteq> []" using h by auto
  obtain s where r: "run_phase rt src phase E st = Inr s"
    using run_phase_returns [of src phase E rt st] h bs by auto
  have sz: "sum_list (map batch_size steps) = n"
    using h by (simp add: steps_def n_def phase_steps_def pass_steps_sizes)
  have l: "0 \<le> weighted_loss rt (phase = ''train'') steps"
    using h by (intro weighted_loss_nonneg) (simp add: steps_def)
  have "total_correct rt (phase = ''train'') steps \<le> sum_list (map batch_size steps)"
    using h by (intro total_correct_le) (simp add: steps_def)
  then have c: "real (total_correct rt (phase = ''train'') steps) \<le> real n"
    using sz by simp
  have "0 \<le> weighted_loss rt (phase = ''train'') steps / real n"
    using l by simp
  moreover have "0 \<le> real (total_correct rt (phase = ''train'') steps) / real n"
    by simp
  moreover have "real (total_correct rt (phase = ''train'') steps) / real n \<le> 1"
    using c n by (simp add: divide_le_eq_1)
  moreover have "out (world s) = out (world st) @
      [AddScalar (loss_tag phase) (weighted_loss rt (phase = ''train'') steps / real n) E,
       AddScalar (acc_tag phase) (real (total_correct rt (phase = ''train'') steps) / real n) E]"
    using run_phase_Inr(3) [OF r] by (simp add: steps_def n_def)
  ultimately show "\<exists>s l acc. run_phase rt src phase E st = Inr s \<and>
        out (world s) = out (world st) @
          [AddScalar (loss_tag phase) l E, AddScalar (acc_tag phase) acc E] \<and>
        0 \<le> l \<and> 0 \<le> acc \<and> acc \<le> 1"
    using r by blast
next
  assume h: "dataset_len src ''test'' \<noteq> 0 \<and>
    sum_list (map (\<lambda>b. length (fst b)) (batches src ''test'' E)) = dataset_len src ''test'' \<and>
    (\<forall>b\<in>set (batches src ''test'' E).
        0 \<le> batch_loss rt False (params st, b) \<and>
        batch_correct rt False (params st, b) \<le> length (fst b))"
  define steps where "steps = map (Pair (params st)) (batches src ''test'' E)"
  define n where "n = dataset_len src ''test''"
  have n: "n \<noteq> 0" using h by (simp add: n_def)
  have bs: "batches src ''test'' E \<noteq> []" using h by auto
  obtain s where r: "test_phase rt src E st = Inr s"
    using test_phase_returns [of src E rt st] h bs by auto
  have sz: "sum_list (map batch_size steps) = n"
    using h by (simp add: steps_def n_def batch_size_def comp_def)
  have l: "0 \<le> weighted_loss rt False steps"
    using h by (intro weighted_loss_nonneg) (auto simp add: steps_def)
  have "total_correct rt False steps \<le> sum_list (map batch_size steps)"
    using h by (intro total_correct_le) (auto simp add: steps_def batch_size_def)
  then have c: "real (total_correct rt False steps) \<le> real n"
    using sz by simp
  have "0 \<le> weighted_loss rt False steps / real n"
    using l by simp
  moreover have "0 \<le> real (total_correct rt False steps) / real n"
    by simp
  moreover have "real (total_correct rt False steps) / real n \<le> 1"
    using c n by (simp add: divide_le_eq_1)
  moreover have "out (world s) = out (world st) @
      [AddScalar ''data/test_loss_epoch'' (weighted_loss rt False steps / real n) E,
       AddScalar ''data/test_acc_epoch'' (real (total_correct rt False steps) / real n) E]"
    using test_phase_Inr(3) [OF r] by (simp add: steps_def n_def)
  ultimately show "\<exists>s l acc. test_phase rt src E st = Inr s \<and>
        out (world s) = out (world st) @
          [AddScalar ''data/test_loss_epoch'' l E, AddScalar ''data/test_acc_epoch'' acc E] \<and>
        0 \<le> l \<and> 0 \<le> acc \<and> acc \<le> 1"
    using r by blast
qed

text \<open>
  The example's training pass of epoch 0 (two batches, three clips) and its test pass
  meet the conditions.
\<close>

theorem metrics_in_range_witness:
  "dataset_len example_src ''train'' = 3 \<and>
   sum_list (map (\<lambda>b. length (fst b)) (batches example_src ''train'' 0)) = 3 \<and>
   list_all (\<lambda>pb. 0 \<le> batch_loss example_rt True pb \<and>
                   batch_correct example_rt True pb \<le> batch_size pb)
     (phase_steps example_rt example_src ''train'' 0 example_state) \<and>
   (\<exists>s l acc. run_phase example_rt example_src ''train'' 0 example_state = Inr s \<and>
      out (world s) =
        [AddScalar ''data/train_loss_epoch'' l 0, AddScalar ''data/train_acc_epoch'' acc 0] \<and>
      0 \<le> l \<and> 0 \<le> acc \<and> acc \<le> 1) \<and>
   (\<exists>s l acc. test_phase example_rt example_src 0 example_state = Inr s \<and>
      out (world s) =
        [AddScalar ''data/test_loss_epoch'' l 0, AddScalar ''data/test_acc_epoch'' acc 0] \<and>
      0 \<le> l \<and> 0 \<le> acc \<and> acc \<le> 1)"
proof -
  have a: "dataset_len example_src ''train'' = 3"
    "sum_list (map (\<lambda>b. length (fst b)) (batches example_src ''train'' 0)) = 3"
    "dataset_len example_src ''test'' = 3"
    "sum_list (map (\<lambda>b. length (fst b)) (batches example_src ''test'' 0)) = 3"
    by (simp_all add: example_src_def)
  have b: "list_all (\<lambda>pb. 0 \<le> batch_loss example_rt True pb \<and>
                   batch_correct example_rt True pb \<le> batch_size pb)
     (phase_steps example_rt example_src ''train'' 0 example_state)"
    by code_simp
  have c: "list_all (\<lambda>b. 0 \<le> batch_loss example_rt False (params example_state, b) \<and>
                   batch_correct example_rt False (params example_state, b) \<le> length (fst b))
     (batches example_src ''test'' 0)"
    by code_simp
  have w: "out (world example_state) = []" "loss_tag ''train'' = ''data/train_loss_epoch''"
    "acc_tag ''train'' = ''data/train_acc_epoch''"
    by (simp_all add: example_state_def example_world_def loss_tag_def acc_tag_def)
  have d: "(\<exists>s l acc. run_phase example_rt example_src ''train'' 0 example_state = Inr s \<and>
      out (world s) = out (world example_state) @
        [AddScalar (loss_tag ''train'') l 0, AddScalar (acc_tag ''train'') acc 0] \<and>
      0 \<le> l \<and> 0 \<le> acc \<and> acc \<le> 1)"
    using metrics_in_range [of example_src "''train''" 0 example_rt example_state] a b
    by (simp add: list_all_iff)
  have e: "(\<exists>s l acc. test_phase example_rt example_src 0 example_state = Inr s \<and>
      out (world s) = out (world example_state) @
        [AddScalar ''data/test_loss_epoch'' l 0, AddScalar ''data/test_acc_epoch'' acc 0] \<and>
      0 \<le> l \<and> 0 \<le> acc \<and> acc \<le> 1)"
    using metrics_in_range [of example_src "''train''" 0 example_rt example_state] a c
    by (simp add: list_all_iff)
  show ?thesis
    using a(1,2) b d e unfolding w by simp
qed

subsection \<open>The test decision\<close>

text \<open>
  C2. In an epoch \<open>E\<close> that runs to its end, when the test evaluation is enabled and
  \<open>E mod test_interval = test_interval - 1\<close> the script writes exactly one test loss
  and one test accuracy, both at step \<open>E\<close>: the averages of one pass over the test
  source in evaluation mode under the parameters the epoch's training left, which the
  pass does not change. Otherwise the epoch writes no test scalar. The model ends the
  epoch in evaluation mode. An epoch runs to its end under \<open>epoch_ok\<close>. Over a whole
  run the test scalars are written at the due epochs from \<open>resume_epoch\<close> to
  \<open>num_epochs - 1\<close>, once each and in order.
\<close>

theorem test_pass_when_due:
  "(epoch_body rt src g a E st = Inr st' \<longrightarrow>
      filter is_test_scalar (out (world st')) =
        filter is_test_scalar (out (world st)) @
        (if arg_useTest a \<and> E mod test_interval a = test_interval a - 1
         then [AddScalar ''data/test_loss_epoch''
                 (weighted_loss rt False (map (Pair (params st')) (batches src ''test'' E))
                    / real (dataset_len src ''test'')) E,
               AddScalar ''data/test_acc_epoch''
                 (real (total_correct rt False (map (Pair (params st')) (batches src ''test'' E)))
                    / real (dataset_len src ''test'')) E]
         else []) \<and>
      training st' = False) \<and>
   (epoch_ok src a E \<longrightarrow> (\<exists>s. epoch_body rt src g a E st = Inr s)) \<and>
   (train_model rt src g a w = Inr fin \<longrightarrow>
      scalar_steps ''data/test_loss_epoch'' (out (world fin)) =
        scalar_steps ''data/test_loss_epoch'' (out w) @
        filter (\<lambda>E. arg_useTest a \<and> E mod test_interval a = test_interval a - 1)
          [resume_epoch g..num_epochs a - 1] \<and>
      scalar_steps ''data/test_acc_epoch'' (out (world fin)) =
        scalar_steps ''data/test_acc_epoch'' (out w) @
        filter (\<lambda>E. arg_useTest a \<and> E mod test_interval a = test_interval a - 1)
          [resume_epoch g..num_epochs a - 1])"
proof (intro conjI impI)
  assume b: "epoch_body rt src g a E st = Inr st'"
  from epoch_body_out [OF b] obtain st1 where
    p: "params st' = params st1" and t: "training st' = False" and
    o: "out (world st') = out (world st) @ epoch_events rt src g a E st st1"
    by blast
  show "training st' = False" by (rule t)
  show "filter is_test_scalar (out (world st')) =
        filter is_test_scalar (out (world st)) @
        (if arg_useTest a \<and> E mod test_interval a = test_interval a - 1
         then [AddScalar ''data/test_loss_epoch''
                 (weighted_loss rt False (map (Pair (params st')) (batches src ''test'' E))
                    / real (dataset_len src ''test'')) E,
               AddScalar ''data/test_acc_epoch''
                 (real (total_correct rt False (map (Pair (params st')) (batches src ''test'' E)))
                    / real (dataset_len src ''test'')) E]
         else [])"
    using o p by (simp add: filter_epoch_events test_due_def)
next
  assume "epoch_ok src a E"
  then show "\<exists>s. epoch_body rt src g a E st = Inr s"
    by (simp add: epoch_body_returns_iff)
next
  assume t: "train_model rt src g a w = Inr fin"
  from t obtain st0 st1 where
    pr: "prepare rt g a w = Inr st0" and
    lp: "epoch_loop rt src g a (resume_epoch g) st0 = Inr st1" and
    fin: "fin = emit WriterClose st1"
    by (rule train_model_Inr)
  have step: "scalar_steps tag (out (world s')) =
      scalar_steps tag (out (world s)) @
      (if arg_useTest a \<and> E mod test_interval a = test_interval a - 1 then [E] else [])"
    if "epoch_body rt src g a E s = Inr s'"
      and "tag = ''data/test_loss_epoch'' \<or> tag = ''data/test_acc_epoch''" for E s s' tag
  proof -
    from epoch_body_out [OF that(1)] obtain s1 where
      o: "out (world s') = out (world s) @ epoch_events rt src g a E s s1"
      by blast
    have "scalar_steps tag (epoch_events rt src g a E s s1) =
        (if test_due a E then [E] else [])"
      using that(2) filter_epoch_events(4,5) [of rt src g a E s s1] by auto
    then show ?thesis
      using o by (simp add: scalar_steps_def test_due_def)
  qed
  have loop: "scalar_steps tag (out (world st1)) =
      scalar_steps tag (out (world st0)) @
      concat (map (\<lambda>E. if arg_useTest a \<and> E mod test_interval a = test_interval a - 1
                        then [E] else [])
                [resume_epoch g..num_epochs a - 1])"
    if "tag = ''data/test_loss_epoch'' \<or> tag = ''data/test_acc_epoch''" for tag
    using step [OF _ that] lp
    by (rule epoch_loop_project [where F = "scalar_steps tag"])
  have pre: "scalar_steps tag (out (world st0)) = scalar_steps tag (out w)" for tag
    using prepare_Inr [OF pr] by (auto simp add: scalar_steps_def is_scalar_def)
  have c: "concat (map (\<lambda>E. if P E then [E] else []) xs) = filter P xs"
    for P :: "int \<Rightarrow> bool" and xs
    using concat_map_if [of P "\<lambda>E. E" xs] by simp
  show "scalar_steps ''data/test_loss_epoch'' (out (world fin)) =
        scalar_steps ''data/test_loss_epoch'' (out w) @
        filter (\<lambda>E. arg_useTest a \<and> E mod test_interval a = test_interval a - 1)
          [resume_epoch g..num_epochs a - 1]"
    using loop [of "''data/test_loss_epoch''"] pre [of "''data/test_loss_epoch''"]
    by (simp add: fin c scalar_steps_def is_scalar_def)
  show "scalar_steps ''data/test_acc_epoch'' (out (world fin)) =
        scalar_steps ''data/test_acc_epoch'' (out w) @
        filter (\<lambda>E. arg_useTest a \<and> E mod test_interval a = test_interval a - 1)
          [resume_epoch g..num_epochs a - 1]"
    using loop [of "''data/test_acc_epoch''"] pre [of "''data/test_acc_epoch''"]
    by (simp add: fin c scalar_steps_def is_scalar_def)
qed

text \<open>
  The specification's scenario: three epochs, a test interval of 3. Epoch 1 writes no
  test scalar, epoch 2 writes the pair once, and the run writes test scalars at step 2
  only.
\<close>

theorem test_pass_when_due_witness:
  "epoch_ok example_src example_args 1 \<and> epoch_ok example_src example_args 2 \<and>
   (\<exists>s. epoch_body example_rt example_src shipped example_args 1 example_state = Inr s \<and>
      filter is_test_scalar (out (world s)) = [] \<and> training s = False) \<and>
   (\<exists>s. epoch_body example_rt example_src shipped example_args 2 example_state = Inr s \<and>
      map step_of (filter is_test_scalar (out (world s))) = [2, 2] \<and>
      map (is_scalar ''data/test_loss_epoch'') (filter is_test_scalar (out (world s)))
        = [True, False] \<and>
      map (is_scalar ''data/test_acc_epoch'') (filter is_test_scalar (out (world s)))
        = [False, True]) \<and>
   (\<exists>fin. train_model example_rt example_src shipped example_args example_world = Inr fin \<and>
      scalar_steps ''data/test_loss_epoch'' (out (world fin)) = [2] \<and>
      scalar_steps ''data/test_acc_epoch'' (out (world fin)) = [2])"
proof -
  have ok: "epoch_ok example_src example_args 1" "epoch_ok example_src example_args 2"
    by (simp_all add: epoch_ok_def nonempty_split_def example_src_def example_args_def
        test_due_def)
  have w: "out (world example_state) = []" "out example_world = []"
    by (simp_all add: example_state_def example_world_def)
  obtain s1 where b1: "epoch_body example_rt example_src shipped example_args 1 example_state = Inr s1"
    using test_pass_when_due [of example_rt example_src shipped example_args 1 example_state]
      ok(1) by blast
  have r1: "filter is_test_scalar (out (world s1)) = [] \<and> training s1 = False"
    using test_pass_when_due [of example_rt example_src shipped example_args 1 example_state s1]
      b1 w
    by (simp add: example_args_def)
  obtain s2 where b2: "epoch_body example_rt example_src shipped example_args 2 example_state = Inr s2"
    using test_pass_when_due [of example_rt example_src shipped example_args 2 example_state]
      ok(2) by blast
  have d: "(arg_useTest example_args \<and> 2 mod test_interval example_args = test_interval example_args - 1)"
    by (simp add: example_args_def)
  have "filter is_test_scalar (out (world s2)) =
        filter is_test_scalar (out (world example_state)) @
        [AddScalar ''data/test_loss_epoch''
           (weighted_loss example_rt False (map (Pair (params s2)) (batches example_src ''test'' 2))
              / real (dataset_len example_src ''test'')) 2,
         AddScalar ''data/test_acc_epoch''
           (real (total_correct example_rt False (map (Pair (params s2)) (batches example_src ''test'' 2)))
              / real (dataset_len example_src ''test'')) 2]"
    using test_pass_when_due [of example_rt example_src shipped example_args 2 example_state s2]
      b2 d
    by simp
  then have r2: "filter is_test_scalar (out (world s2)) =
        [AddScalar ''data/test_loss_epoch''
           (weighted_loss example_rt False (map (Pair (params s2)) (batches example_src ''test'' 2))
              / real (dataset_len example_src ''test'')) 2,
         AddScalar ''data/test_acc_epoch''
           (real (total_correct example_rt False (map (Pair (params s2)) (batches example_src ''test'' 2)))
              / real (dataset_len example_src ''test'')) 2]"
    unfolding w by simp
  have r2': "map step_of (filter is_test_scalar (out (world s2))) = [2, 2]"
    "map (is_scalar ''data/test_loss_epoch'') (filter is_test_scalar (out (world s2)))
       = [True, False]"
    "map (is_scalar ''data/test_acc_epoch'') (filter is_test_scalar (out (world s2)))
       = [False, True]"
    unfolding r2 by (simp_all add: step_of_def is_scalar_def)
  have "final_state (train_model example_rt example_src shipped example_args example_world) \<noteq> None"
    by code_simp
  then obtain fin where
    t: "train_model example_rt example_src shipped example_args example_world = Inr fin"
    by (auto simp add: final_state_Some)
  have due: "filter (\<lambda>E. arg_useTest example_args \<and>
                 E mod test_interval example_args = test_interval example_args - 1)
          [resume_epoch shipped..num_epochs example_args - 1] = [2]"
    by code_simp
  have r3: "scalar_steps ''data/test_loss_epoch'' (out (world fin)) = [2] \<and>
      scalar_steps ''data/test_acc_epoch'' (out (world fin)) = [2]"
    using test_pass_when_due
        [of example_rt example_src shipped example_args _ _ _ example_world fin] t
    unfolding due w by (simp add: scalar_steps_def)
  have e1: "\<exists>s. epoch_body example_rt example_src shipped example_args 1 example_state = Inr s \<and>
      filter is_test_scalar (out (world s)) = [] \<and> training s = False"
    by (rule exI [of _ s1]) (simp add: b1 r1)
  have e2: "\<exists>s. epoch_body example_rt example_src shipped example_args 2 example_state = Inr s \<and>
      map step_of (filter is_test_scalar (out (world s))) = [2, 2] \<and>
      map (is_scalar ''data/test_loss_epoch'') (filter is_test_scalar (out (world s)))
        = [True, False] \<and>
      map (is_scalar ''data/test_acc_epoch'') (filter is_test_scalar (out (world s)))
        = [False, True]"
    by (rule exI [of _ s2]) (simp add: b2 r2')
  have e3: "\<exists>fin. train_model example_rt example_src shipped example_args example_world = Inr fin \<and>
      scalar_steps ''data/test_loss_epoch'' (out (world fin)) = [2] \<and>
      scalar_steps ''data/test_acc_epoch'' (out (world fin)) = [2]"
    by (rule exI [of _ fin]) (simp add: t r3)
  show ?thesis
    using ok e1 e2 e3 by simp
qed

subsection \<open>The epochs of a run and the restore\<close>

text \<open>
  C4. A run of \<^verbatim>\<open>train_model\<close> that returns has trained in exactly the epochs
  \<open>resume_epoch\<close>, ..., \<open>num_epochs - 1\<close>, once each and in this order: these are the
  steps of the training losses it wrote. With \<open>resume_epoch = 0\<close> it called
  \<^verbatim>\<open>torch.load\<close> not at all. Otherwise it called it once, on the file
  \<^verbatim>\<open><save_dir>/models/<modelName>-<dataset>_epoch-<resume_epoch - 1>.pth.tar\<close>, before
  any training loss was written, and the epoch loop started from the model state and the
  optimizer state of that file. A run returns when the model
  name is known, the checkpoint to resume from exists, and every epoch of the range can
  run to its end.
\<close>

theorem epochs_and_restore:
  "(train_model rt src g a w = Inr fin \<longrightarrow>
      scalar_steps ''data/train_loss_epoch'' (out (world fin)) =
        scalar_steps ''data/train_loss_epoch'' (out w) @ [resume_epoch g..num_epochs a - 1] \<and>
      (\<exists>st0 st1.
         prepare rt g a w = Inr st0 \<and>
         epoch_loop rt src g a (resume_epoch g) st0 = Inr st1 \<and>
         fin = emit WriterClose st1 \<and>
         scalar_steps ''data/train_loss_epoch'' (out (world st0)) =
           scalar_steps ''data/train_loss_epoch'' (out w) \<and>
         filter is_load (out (world fin)) = filter is_load (out (world st0)) \<and>
         (if resume_epoch g = 0
          then filter is_load (out (world st0)) = filter is_load (out w)
          else filter is_load (out (world st0)) =
                 filter is_load (out w) @
                 [TorchLoad (path_join (path_join (arg_save_dir a) ''models'')
                    (modelName g @ ''-'' @ dataset g @ ''_epoch-'' @
                     py_str (resume_epoch g - 1) @ ''.pth.tar''))] \<and>
               (\<exists>ck. files w (path_join (path_join (arg_save_dir a) ''models'')
                    (modelName g @ ''-'' @ dataset g @ ''_epoch-'' @
                     py_str (resume_epoch g - 1) @ ''.pth.tar'')) = Some ck \<and>
                     params st0 = state_dict ck \<and> opt st0 = opt_dict ck)))) \<and>
   (run_ok src g a w \<longrightarrow> (\<exists>s. train_model rt src g a w = Inr s))"
proof (intro conjI impI)
  assume t: "train_model rt src g a w = Inr fin"
  from t obtain st0 st1 where
    pr: "prepare rt g a w = Inr st0" and
    lp: "epoch_loop rt src g a (resume_epoch g) st0 = Inr st1" and
    fin: "fin = emit WriterClose st1"
    by (rule train_model_Inr)
  have tr_step: "scalar_steps ''data/train_loss_epoch'' (out (world s')) =
      scalar_steps ''data/train_loss_epoch'' (out (world s)) @ [E]"
    if "epoch_body rt src g a E s = Inr s'" for E s s'
    using epoch_body_out [OF that] filter_epoch_events(3) [of rt src g a E s]
    by (auto simp add: scalar_steps_def)
  have tr_loop: "scalar_steps ''data/train_loss_epoch'' (out (world st1)) =
      scalar_steps ''data/train_loss_epoch'' (out (world st0)) @
      concat (map (\<lambda>E. [E]) [resume_epoch g..num_epochs a - 1])"
    using tr_step lp
    by (rule epoch_loop_project [where F = "scalar_steps ''data/train_loss_epoch''"])
  have ld_step: "filter is_load (out (world s')) = filter is_load (out (world s)) @ []"
    if "epoch_body rt src g a E s = Inr s'" for E s s'
    using epoch_body_out [OF that] filter_epoch_events(2) [of rt src g a E s]
    by auto
  have ld_loop: "filter is_load (out (world st1)) =
      filter is_load (out (world st0)) @
      concat (map (\<lambda>E. []) [resume_epoch g..num_epochs a - 1])"
    using ld_step lp
    by (rule epoch_loop_project [where F = "filter is_load"])
  have c: "concat (map (\<lambda>E. [E]) xs) = xs" for xs :: "int list"
    by (induction xs) simp_all
  from prepare_Inr [OF pr] obtain ar where
    o0: "out (world st0) = out w @
             [NewModel ar (arg_num_classes a), NewCriterion, NewOptimizer (arg_lr a), NewScheduler] @
             (if resume_epoch g = 0 then []
              else [TorchLoad (checkpoint_path (arg_save_dir a) g (resume_epoch g - 1))]) @
             [NewWriter, NewLoader ''train'', NewLoader ''val'', NewLoader ''test'']" and
    ck: "if resume_epoch g = 0
            then params st0 = new_model rt ar (arg_num_classes a) \<and>
                 opt st0 = new_optimizer rt (new_model rt ar (arg_num_classes a)) (arg_lr a)
            else \<exists>ck. files w (checkpoint_path (arg_save_dir a) g (resume_epoch g - 1)) = Some ck \<and>
                      params st0 = state_dict ck \<and> opt st0 = opt_dict ck"
    by blast
  have s0: "scalar_steps ''data/train_loss_epoch'' (out (world st0)) =
           scalar_steps ''data/train_loss_epoch'' (out w)"
    using o0 by (simp add: scalar_steps_def is_scalar_def)
  have l0: "filter is_load (out (world st0)) =
      filter is_load (out w) @
      (if resume_epoch g = 0 then []
       else [TorchLoad (checkpoint_path (arg_save_dir a) g (resume_epoch g - 1))])"
    using o0 by (simp add: is_load_def)
  have lf: "filter is_load (out (world fin)) = filter is_load (out (world st0))"
    using ld_loop by (simp add: fin is_load_def)
  show "scalar_steps ''data/train_loss_epoch'' (out (world fin)) =
        scalar_steps ''data/train_loss_epoch'' (out w) @ [resume_epoch g..num_epochs a - 1]"
    using tr_loop s0 by (simp add: fin c scalar_steps_def is_scalar_def)
  have "prepare rt g a w = Inr st0 \<and>
         epoch_loop rt src g a (resume_epoch g) st0 = Inr st1 \<and>
         fin = emit WriterClose st1 \<and>
         scalar_steps ''data/train_loss_epoch'' (out (world st0)) =
           scalar_steps ''data/train_loss_epoch'' (out w) \<and>
         filter is_load (out (world fin)) = filter is_load (out (world st0)) \<and>
         (if resume_epoch g = 0
          then filter is_load (out (world st0)) = filter is_load (out w)
          else filter is_load (out (world st0)) =
                 filter is_load (out w) @
                 [TorchLoad (path_join (path_join (arg_save_dir a) ''models'')
                    (modelName g @ ''-'' @ dataset g @ ''_epoch-'' @
                     py_str (resume_epoch g - 1) @ ''.pth.tar''))] \<and>
               (\<exists>ck. files w (path_join (path_join (arg_save_dir a) ''models'')
                    (modelName g @ ''-'' @ dataset g @ ''_epoch-'' @
                     py_str (resume_epoch g - 1) @ ''.pth.tar'')) = Some ck \<and>
                     params st0 = state_dict ck \<and> opt st0 = opt_dict ck))"
    using pr lp fin s0 lf l0 ck
    by (simp add: checkpoint_path_def saveName_def split: if_splits)
  then show "\<exists>st0 st1.
         prepare rt g a w = Inr st0 \<and>
         epoch_loop rt src g a (resume_epoch g) st0 = Inr st1 \<and>
         fin = emit WriterClose st1 \<and>
         scalar_steps ''data/train_loss_epoch'' (out (world st0)) =
           scalar_steps ''data/train_loss_epoch'' (out w) \<and>
         filter is_load (out (world fin)) = filter is_load (out (world st0)) \<and>
         (if resume_epoch g = 0
          then filter is_load (out (world st0)) = filter is_load (out w)
          else filter is_load (out (world st0)) =
                 filter is_load (out w) @
                 [TorchLoad (path_join (path_join (arg_save_dir a) ''models'')
                    (modelName g @ ''-'' @ dataset g @ ''_epoch-'' @
                     py_str (resume_epoch g - 1) @ ''.pth.tar''))] \<and>
               (\<exists>ck. files w (path_join (path_join (arg_save_dir a) ''models'')
                    (modelName g @ ''-'' @ dataset g @ ''_epoch-'' @
                     py_str (resume_epoch g - 1) @ ''.pth.tar'')) = Some ck \<and>
                     params st0 = state_dict ck \<and> opt st0 = opt_dict ck))"
    by blast
next
  assume ok: "run_ok src g a w"
  then obtain ar where ar: "select_arch (modelName g) = Inr ar"
    by (auto simp add: run_ok_def select_arch_def split: if_splits)
  obtain st0 where pr: "prepare rt g a w = Inr st0"
    using prepare_returns [OF ar, where w = w and a = a and rt = rt] ok
    by (auto simp add: run_ok_def checkpoint_path_def saveName_def)
  obtain st1 where lp: "epoch_loop rt src g a (resume_epoch g) st0 = Inr st1"
    using epoch_loop_returns [where epoch = "resume_epoch g" and a = a and src = src
        and rt = rt and g = g and st = st0] ok
    by (auto simp add: run_ok_def)
  show "\<exists>s. train_model rt src g a w = Inr s"
    using pr lp by (simp add: train_model_def)
qed

text \<open>
  Three runs of the example with three epochs: a fresh one, which trains in epochs 0, 1,
  2 and loads nothing; one resumed at epoch 2, which loads the file of epoch 1, starts
  its loop from that file's states 5 and 7 and trains in epoch 2 only; and one resumed at
  epoch 1, which loads the file of epoch 0, starts from its states 3 and 4 and trains in
  epochs 1 and 2.
\<close>

theorem epochs_and_restore_witness:
  "run_ok example_src shipped example_args example_world \<and>
   (\<exists>fin. train_model example_rt example_src shipped example_args example_world = Inr fin \<and>
      scalar_steps ''data/train_loss_epoch'' (out (world fin)) = [0, 1, 2] \<and>
      filter is_load (out (world fin)) = []) \<and>
   run_ok example_src (shipped\<lparr>resume_epoch := 2\<rparr>) example_args resumed_world \<and>
   (\<exists>fin st0.
      train_model example_rt example_src (shipped\<lparr>resume_epoch := 2\<rparr>) example_args resumed_world
        = Inr fin \<and>
      prepare example_rt (shipped\<lparr>resume_epoch := 2\<rparr>) example_args resumed_world = Inr st0 \<and>
      params st0 = 5 \<and> opt st0 = 7 \<and>
      scalar_steps ''data/train_loss_epoch'' (out (world fin)) = [2] \<and>
      filter is_load (out (world fin)) =
        [TorchLoad ''/p/run/run_0/models/simple_vit_3d-ucf101_epoch-1.pth.tar'']) \<and>
   run_ok example_src (shipped\<lparr>resume_epoch := 1\<rparr>) example_args resumed_world \<and>
   (\<exists>fin st0.
      train_model example_rt example_src (shipped\<lparr>resume_epoch := 1\<rparr>) example_args resumed_world
        = Inr fin \<and>
      prepare example_rt (shipped\<lparr>resume_epoch := 1\<rparr>) example_args resumed_world = Inr st0 \<and>
      params st0 = 3 \<and> opt st0 = 4 \<and>
      scalar_steps ''data/train_loss_epoch'' (out (world fin)) = [1, 2] \<and>
      filter is_load (out (world fin)) =
        [TorchLoad ''/p/run/run_0/models/simple_vit_3d-ucf101_epoch-0.pth.tar''])"
proof -
  let ?g1 = "shipped\<lparr>resume_epoch := 1\<rparr>"
  let ?g2 = "shipped\<lparr>resume_epoch := 2\<rparr>"
  let ?path0 = "''/p/run/run_0/models/simple_vit_3d-ucf101_epoch-0.pth.tar''"
  let ?path1 = "''/p/run/run_0/models/simple_vit_3d-ucf101_epoch-1.pth.tar''"
  have eok: "epoch_ok example_src example_args E" for E
    by (simp add: epoch_ok_def nonempty_split_def example_src_def example_args_def)
  have arch: "select_arch (modelName shipped) \<noteq> Inl NotImplementedError"
    "select_arch (modelName ?g1) \<noteq> Inl NotImplementedError"
    "select_arch (modelName ?g2) \<noteq> Inl NotImplementedError"
    by (simp_all add: select_arch_def shipped_def)
  have path1: "path_join (path_join (arg_save_dir example_args) ''models'')
      (modelName ?g2 @ ''-'' @ dataset ?g2 @ ''_epoch-'' @ py_str (resume_epoch ?g2 - 1) @ ''.pth.tar'')
      = ?path1"
    by code_simp
  have path0: "path_join (path_join (arg_save_dir example_args) ''models'')
      (modelName ?g1 @ ''-'' @ dataset ?g1 @ ''_epoch-'' @ py_str (resume_epoch ?g1 - 1) @ ''.pth.tar'')
      = ?path0"
    by code_simp
  have fl: "files resumed_world ?path1 = Some \<lparr>ck_epoch = 2, state_dict = 5, opt_dict = 7\<rparr>"
    "files resumed_world ?path0 = Some \<lparr>ck_epoch = 1, state_dict = 3, opt_dict = 4\<rparr>"
    by (simp_all add: resumed_world_def)
  have ok0: "run_ok example_src shipped example_args example_world"
    using eok arch by (simp add: run_ok_def shipped_def)
  have ok2: "run_ok example_src ?g2 example_args resumed_world"
    using eok arch fl unfolding run_ok_def path1 by simp
  have ok1: "run_ok example_src ?g1 example_args resumed_world"
    using eok arch fl unfolding run_ok_def path0 by simp
  have w: "out example_world = []" "out resumed_world = []"
    by (simp_all add: example_world_def resumed_world_def)
  have rng: "[resume_epoch shipped..num_epochs example_args - 1] = [0, 1, 2]"
    "[resume_epoch ?g1..num_epochs example_args - 1] = [1, 2]"
    "[resume_epoch ?g2..num_epochs example_args - 1] = [2]"
    by code_simp+
  obtain fin0 where t0: "train_model example_rt example_src shipped example_args example_world = Inr fin0"
    using epochs_and_restore [of example_rt example_src shipped example_args example_world] ok0
    by blast
  have s0: "scalar_steps ''data/train_loss_epoch'' (out (world fin0)) = [0, 1, 2]"
    using epochs_and_restore [of example_rt example_src shipped example_args example_world fin0] t0
    unfolding rng w by (simp add: scalar_steps_def)
  have l0: "filter is_load (out (world fin0)) = []"
    using epochs_and_restore [of example_rt example_src shipped example_args example_world fin0] t0
    unfolding w by (auto simp add: shipped_def)
  obtain fin2 where t2: "train_model example_rt example_src ?g2 example_args resumed_world = Inr fin2"
    using epochs_and_restore [of example_rt example_src ?g2 example_args resumed_world] ok2
    by blast
  have s2: "scalar_steps ''data/train_loss_epoch'' (out (world fin2)) = [2]"
    using epochs_and_restore [of example_rt example_src ?g2 example_args resumed_world fin2] t2
    unfolding rng w by (simp add: scalar_steps_def)
  have r2: "resume_epoch ?g2 \<noteq> 0" by simp
  obtain st2 where
    p2: "prepare example_rt ?g2 example_args resumed_world = Inr st2" and
    lf2: "filter is_load (out (world fin2)) = filter is_load (out (world st2))" and
    ld2: "filter is_load (out (world st2)) = filter is_load (out resumed_world) @ [TorchLoad ?path1]" and
    ck2: "\<exists>ck. files resumed_world ?path1 = Some ck \<and> params st2 = state_dict ck \<and>
            opt st2 = opt_dict ck"
    using epochs_and_restore [of example_rt example_src ?g2 example_args resumed_world fin2] t2 r2
    unfolding path1 by auto
  have v2: "params st2 = 5" "opt st2 = 7"
    using ck2 fl by auto
  have l2: "filter is_load (out (world fin2)) = [TorchLoad ?path1]"
    using lf2 ld2 w by simp
  obtain fin1 where t1: "train_model example_rt example_src ?g1 example_args resumed_world = Inr fin1"
    using epochs_and_restore [of example_rt example_src ?g1 example_args resumed_world] ok1
    by blast
  have s1: "scalar_steps ''data/train_loss_epoch'' (out (world fin1)) = [1, 2]"
    using epochs_and_restore [of example_rt example_src ?g1 example_args resumed_world fin1] t1
    unfolding rng w by (simp add: scalar_steps_def)
  have r1: "resume_epoch ?g1 \<noteq> 0" by simp
  obtain st1 where
    p1: "prepare example_rt ?g1 example_args resumed_world = Inr st1" and
    lf1: "filter is_load (out (world fin1)) = filter is_load (out (world st1))" and
    ld1: "filter is_load (out (world st1)) = filter is_load (out resumed_world) @ [TorchLoad ?path0]" and
    ck1: "\<exists>ck. files resumed_world ?path0 = Some ck \<and> params st1 = state_dict ck \<and>
            opt st1 = opt_dict ck"
    using epochs_and_restore [of example_rt example_src ?g1 example_args resumed_world fin1] t1 r1
    unfolding path0 by auto
  have v1: "params st1 = 3" "opt st1 = 4"
    using ck1 fl by auto
  have l1: "filter is_load (out (world fin1)) = [TorchLoad ?path0]"
    using lf1 ld1 w by simp
  have e0: "\<exists>fin. train_model example_rt example_src shipped example_args example_world = Inr fin \<and>
      scalar_steps ''data/train_loss_epoch'' (out (world fin)) = [0, 1, 2] \<and>
      filter is_load (out (world fin)) = []"
    by (rule exI [of _ fin0]) (simp add: t0 s0 l0)
  have e2: "\<exists>fin st0.
      train_model example_rt example_src ?g2 example_args resumed_world = Inr fin \<and>
      prepare example_rt ?g2 example_args resumed_world = Inr st0 \<and>
      params st0 = 5 \<and> opt st0 = 7 \<and>
      scalar_steps ''data/train_loss_epoch'' (out (world fin)) = [2] \<and>
      filter is_load (out (world fin)) = [TorchLoad ?path1]"
    apply (rule exI [of _ fin2])
    apply (rule exI [of _ st2])
    apply (simp add: t2 p2 v2 s2 l2)
    done
  have e1: "\<exists>fin st0.
      train_model example_rt example_src ?g1 example_args resumed_world = Inr fin \<and>
      prepare example_rt ?g1 example_args resumed_world = Inr st0 \<and>
      params st0 = 3 \<and> opt st0 = 4 \<and>
      scalar_steps ''data/train_loss_epoch'' (out (world fin)) = [1, 2] \<and>
      filter is_load (out (world fin)) = [TorchLoad ?path0]"
    apply (rule exI [of _ fin1])
    apply (rule exI [of _ st1])
    apply (simp add: t1 p1 v1 s1 l1)
    done
  show ?thesis
    using ok0 ok1 ok2 e0 e1 e2 by simp
qed

subsection \<open>Softmax and the predicted class\<close>



end
